theory Spec2Isabelle
  imports Complex_Main "HOL-Library.AList" "HOL-Library.Log_Nat"
begin

section \<open>Conventions of the embedding\<close>

text \<open>
  The trading engine is C++. Its data is embedded as follows.
  \<^item> A \<^verbatim>\<open>double\<close> is the \<^typ>\<open>real\<close> number it stands for. In the exposure accounting
    of the Risk Manager (\<^verbatim>\<open>RegisterPosition\<close>, \<^verbatim>\<open>ClosePosition\<close>), where two running sums
    are compared for equality, the products, sums and differences are the IEEE 754 ones: the
    exact result rounded to the nearest double (section \<open>Double arithmetic\<close>). Everywhere else
    the arithmetic of the model is the arithmetic the source writes down, without rounding.
    Infinities and NaN are not modelled.
  \<^item> A \<^verbatim>\<open>std::chrono::system_clock::time_point\<close> is the \<^typ>\<open>int\<close> number of clock
    ticks since the epoch; the tick is the nanosecond of libstdc++. Every read of the clock
    (\<^verbatim>\<open>system_clock::now()\<close>) is an explicit argument of the function that reads it.
  \<^item> A \<^verbatim>\<open>std::map\<close> is an association list that holds every key once
    (\<^const>\<open>map_of\<close> is \<^verbatim>\<open>find\<close>, \<^const>\<open>AList.update\<close> is assignment through
    \<^verbatim>\<open>operator[]\<close>, \<^const>\<open>AList.delete\<close> is \<^verbatim>\<open>erase\<close>).
  \<^item> A \<^verbatim>\<open>std::deque\<close> or \<^verbatim>\<open>std::vector\<close> is a list, front first.
  \<^item> A member function that mutates its object takes the object and returns the new one.
    A function that can throw returns the exception (if any) beside the object as the
    throw left it. The exceptions are those derived from \<^verbatim>\<open>std::exception\<close>, the only ones
    that the repository throws or catches.
  \<^item> Mutexes are not modelled: every function runs alone.
\<close>

type_synonym time_point = int

definition ticks_per_second :: int where
  "ticks_per_second = 1000000000"

definition ticks_per_minute :: int where
  "ticks_per_minute = 60 * ticks_per_second"

definition ticks_per_day :: int where
  "ticks_per_day = 86400 * ticks_per_second"

text \<open>\<^verbatim>\<open>std::chrono::floor<std::chrono::days>(t)\<close>: the day of a time point, rounded down.\<close>

definition floor_days :: "time_point \<Rightarrow> int" where
  "floor_days t = t div ticks_per_day"

text \<open>\<^verbatim>\<open>static_cast<size_t>(i)\<close> of an \<^verbatim>\<open>int\<close>, for a 64-bit \<^verbatim>\<open>size_t\<close>:
  a negative value wraps around.\<close>

definition size_t_of_int :: "int \<Rightarrow> nat" where
  "size_t_of_int i = nat (i mod 2 ^ 64)"

datatype exn = invalid_argument string | runtime_error string | out_of_range string

text \<open>\<^verbatim>\<open>e.what()\<close>\<close>

fun what :: "exn \<Rightarrow> string" where
  "what (invalid_argument m) = m"
| "what (runtime_error m) = m"
| "what (out_of_range m) = m"

section \<open>Double arithmetic\<close>

text \<open>
  A finite \<^verbatim>\<open>double\<close> (IEEE 754 binary64) is an integer multiple of a power of two, with a
  significand of 53 bits. An operation on doubles yields the exact result rounded to the
  nearest double, a tie going to the double whose significand is even (the default rounding
  mode, which nothing in the repository changes).
\<close>

text \<open>The power of two with an integer exponent.\<close>

definition pow2 :: "int \<Rightarrow> real" where
  "pow2 k = (if 0 \<le> k then 2 ^ nat k else 1 / 2 ^ nat (- k))"

text \<open>The binary exponent of a positive real \<open>x\<close>: the \<open>e\<close> with
  \<open>pow2 e \<le> x < pow2 (e + 1)\<close>, from the number of bits of the integer part of \<open>x\<close> or of
  \<open>1 / x\<close>.\<close>

definition floor_log2 :: "real \<Rightarrow> int" where
  "floor_log2 x = (if 1 \<le> x then bitlen \<lfloor>x\<rfloor> - 1 else - bitlen (\<lceil>1 / x\<rceil> - 1))"

text \<open>Rounding to the nearest integer, a tie to the even one.\<close>

definition round_half_even :: "real \<Rightarrow> int" where
  "round_half_even y =
    (let n = \<lfloor>y\<rfloor>; r = y - of_int n
     in if r < 1 / 2 then n else if 1 / 2 < r then n + 1 else if even n then n else n + 1)"

text \<open>Rounding to the nearest double: the spacing of the doubles around \<open>x\<close> is
  \<open>pow2 (e - 52)\<close> for the exponent \<open>e\<close> of \<open>x\<close>, taken not below -1022 (the subnormal
  numbers), and the result is the nearest multiple of the spacing. A result beyond the
  largest double, which the machine turns into an infinity, is outside the model.\<close>

definition round64 :: "real \<Rightarrow> real" where
  "round64 x =
    (if x = 0 then 0
     else (let e = max (floor_log2 \<bar>x\<bar>) (- 1022);
               ulp = pow2 (e - 52)
           in of_int (round_half_even (x / ulp)) * ulp))"

text \<open>The sum, the difference and the product of two doubles, as the machine computes
  them.\<close>

definition fadd :: "real \<Rightarrow> real \<Rightarrow> real" where
  "fadd x y = round64 (x + y)"

definition fsub :: "real \<Rightarrow> real \<Rightarrow> real" where
  "fsub x y = round64 (x - y)"

definition fmul :: "real \<Rightarrow> real \<Rightarrow> real" where
  "fmul x y = round64 (x * y)"

text \<open>The largest finite double, and the reals that an operation yields without rounding
  and without overflow: the finite doubles.\<close>

definition DBL_MAX :: real where
  "DBL_MAX = (2 ^ 53 - 1) * 2 ^ 971"

definition unrounded :: "real \<Rightarrow> bool" where
  "unrounded x \<longleftrightarrow> round64 x = x \<and> \<bar>x\<bar> \<le> DBL_MAX"

section \<open>Risk Manager (RiskManager.h, RiskManager.cpp)\<close>

datatype EOrderSide = BUY | SELL

text \<open>\<^verbatim>\<open>Strategy::SPosition\<close> (IStrategy.h). The metadata map, which no function of the
  model reads, is left out.\<close>

record SPosition =
  mSymbol :: string
  mSide :: EOrderSide
  mEntryPrice :: real
  mQuantity :: real
  mEntryTime :: time_point
  mStopLoss :: real
  mTakeProfit :: real
  mId :: string
  mStrategyName :: string
  mCurrentPrice :: real
  mUnrealizedPnL :: real
  mCommission :: real

datatype ERiskAlertType =
  DAILY_LOSS_LIMIT | TOTAL_EXPOSURE_LIMIT | SYMBOL_EXPOSURE_LIMIT
| MAX_POSITIONS_LIMIT | VOLATILITY_ALERT

text \<open>\<^verbatim>\<open>CRiskManager::SRiskAlert\<close>; the fields carry the suffix \<open>_alert\<close> where another
  structure has a field of the same name.\<close>

record SRiskAlert =
  mType_alert :: ERiskAlertType
  mSymbol_alert :: string
  mMessage_alert :: string
  mTimestamp_alert :: time_point
  mCurrentValue :: real
  mLimitValue :: real

text \<open>The data members of \<^verbatim>\<open>CRiskManager\<close>. \<^verbatim>\<open>mMinTimeBetweenTrades\<close> is a number
  of seconds.\<close>

record CRiskManager =
  mMaxCapitalPerTrade :: real
  mMaxTotalExposure :: real
  mMaxSymbolExposure :: real
  mMaxOpenPositions :: int
  mMaxDailyLoss :: real
  mDefaultStopLoss :: real
  mDefaultTakeProfit :: real
  mMinTimeBetweenTrades :: int
  mEnableVolatilityCheck :: bool
  mMaxVolatility :: real
  mOpenPositions :: "(string \<times> SPosition) list"
  mSymbolExposure :: "(string \<times> real) list"
  mLastTradeTime :: "(string \<times> time_point) list"
  mTotalExposure :: real
  mTodayPnL :: real
  mStartOfDay :: time_point
  mActiveAlerts :: "SRiskAlert list"

text \<open>The constructor. It reads the clock twice (\<open>now1\<close> for \<^verbatim>\<open>mStartOfDay\<close>, \<open>now2\<close> for
  the day test that follows).\<close>

definition CRiskManager_ctor :: "time_point \<Rightarrow> time_point \<Rightarrow> CRiskManager" where
  "CRiskManager_ctor now1 now2 =
    (let s = \<lparr> mMaxCapitalPerTrade = 5, mMaxTotalExposure = 50, mMaxSymbolExposure = 20,
               mMaxOpenPositions = 5, mMaxDailyLoss = 10, mDefaultStopLoss = 2,
               mDefaultTakeProfit = 5, mMinTimeBetweenTrades = 60,
               mEnableVolatilityCheck = True, mMaxVolatility = 5,
               mOpenPositions = [], mSymbolExposure = [], mLastTradeTime = [],
               mTotalExposure = 0, mTodayPnL = 0, mStartOfDay = now1,
               mActiveAlerts = [] \<rparr>
     in if floor_days now2 > floor_days (mStartOfDay s)
        then s\<lparr> mStartOfDay := floor_days now2 * ticks_per_day, mTodayPnL := 0 \<rparr>
        else s)"

definition CheckMaxOpenPositions :: "CRiskManager \<Rightarrow> bool" where
  "CheckMaxOpenPositions s \<longleftrightarrow>
     length (mOpenPositions s) < size_t_of_int (mMaxOpenPositions s)"

text \<open>\<^verbatim>\<open>CheckMaxDailyLoss\<close> is \<^verbatim>\<open>const\<close> in the source but resets the daily figures
  through a \<^verbatim>\<open>const_cast\<close>: it returns the object too.\<close>

definition CheckMaxDailyLoss :: "CRiskManager \<Rightarrow> time_point \<Rightarrow> bool \<times> CRiskManager" where
  "CheckMaxDailyLoss s now =
    (let today = floor_days now;
         s1 = (if today > floor_days (mStartOfDay s)
               then s\<lparr> mStartOfDay := today * ticks_per_day, mTodayPnL := 0 \<rparr>
               else s);
         accountBalance = 10000;
         maxLossThreshold = accountBalance * (mMaxDailyLoss s1 / 100)
     in (- mTodayPnL s1 < maxLossThreshold, s1))"

definition CheckMarketVolatility :: "CRiskManager \<Rightarrow> string \<Rightarrow> real \<Rightarrow> bool" where
  "CheckMarketVolatility s symbol price = True"

definition CheckSymbolExposure :: "CRiskManager \<Rightarrow> string \<Rightarrow> real \<Rightarrow> bool" where
  "CheckSymbolExposure s symbol addedExposure =
    (let currentExposure = (case map_of (mSymbolExposure s) symbol of
                              None \<Rightarrow> 0 | Some e \<Rightarrow> e);
         accountBalance = 10000;
         maxAllowedExposure = accountBalance * (mMaxSymbolExposure s / 100)
     in currentExposure + addedExposure \<le> maxAllowedExposure)"

definition CheckTradeFrequency :: "CRiskManager \<Rightarrow> string \<Rightarrow> time_point \<Rightarrow> bool" where
  "CheckTradeFrequency s symbol now =
    (case map_of (mLastTradeTime s) symbol of
       None \<Rightarrow> True
     | Some t \<Rightarrow>
         (let elapsed = now - t
          in if elapsed < mMinTimeBetweenTrades s * ticks_per_second then False else True))"

text \<open>\<^verbatim>\<open>CheckPositionAllowed\<close>: the checks in the order of the source, each one reached only
  when the ones before it passed. \<open>now_loss\<close> is the clock as \<^verbatim>\<open>CheckMaxDailyLoss\<close> reads
  it, \<open>now_freq\<close> as \<^verbatim>\<open>CheckTradeFrequency\<close> does.\<close>

definition CheckPositionAllowed ::
  "CRiskManager \<Rightarrow> string \<Rightarrow> EOrderSide \<Rightarrow> real \<Rightarrow> real \<Rightarrow> time_point \<Rightarrow> time_point
     \<Rightarrow> bool \<times> CRiskManager" where
  "CheckPositionAllowed s symbol side quantity price now_loss now_freq =
    (if symbol = [] \<or> quantity \<le> 0 \<or> price \<le> 0 then (False, s)
     else if \<not> CheckMaxOpenPositions s then (False, s)
     else
       (let (lossOk, s1) = CheckMaxDailyLoss s now_loss
        in if \<not> lossOk then (False, s1)
           else
             (let exposure = quantity * price
              in if \<not> CheckSymbolExposure s1 symbol exposure then (False, s1)
                 else if \<not> CheckTradeFrequency s1 symbol now_freq then (False, s1)
                 else if mEnableVolatilityCheck s1 \<and> \<not> CheckMarketVolatility s1 symbol price
                      then (False, s1)
                 else (True, s1))))"

text \<open>\<^verbatim>\<open>RegisterPosition\<close>; \<^verbatim>\<open>mSymbolExposure[symbol] += exposure\<close> starts from the
  \<open>0.0\<close> that \<^verbatim>\<open>operator[]\<close> inserts for a new key. The product and the two sums are
  those of the machine, each rounded on its own.\<close>

definition RegisterPosition ::
  "CRiskManager \<Rightarrow> SPosition \<Rightarrow> time_point \<Rightarrow> exn option \<times> CRiskManager" where
  "RegisterPosition s position now =
    (if mId position = [] then (Some (invalid_argument ''Position ID cannot be empty''), s)
     else
       (let exposure = fmul (mQuantity position) (mEntryPrice position);
            old = (case map_of (mSymbolExposure s) (mSymbol position) of
                     None \<Rightarrow> 0 | Some e \<Rightarrow> e)
        in (None,
            s\<lparr> mOpenPositions := AList.update (mId position) position (mOpenPositions s),
               mSymbolExposure :=
                 AList.update (mSymbol position) (fadd old exposure) (mSymbolExposure s),
               mTotalExposure := fadd (mTotalExposure s) exposure,
               mLastTradeTime := AList.update (mSymbol position) now (mLastTradeTime s) \<rparr>)))"

text \<open>\<^verbatim>\<open>ClosePosition\<close>, with the product, the two differences and the sum of the
  machine.\<close>

definition ClosePosition ::
  "CRiskManager \<Rightarrow> string \<Rightarrow> real \<Rightarrow> real \<Rightarrow> exn option \<times> CRiskManager" where
  "ClosePosition s positionId exitPrice pnl =
    (case map_of (mOpenPositions s) positionId of
       None \<Rightarrow>
         (Some (runtime_error (''Position with ID '' @ [CHR 0x27] @ positionId @ [CHR 0x27]
                               @ '' not found'')), s)
     | Some position \<Rightarrow>
         (let exposure = fmul (mQuantity position) (mEntryPrice position);
              old = (case map_of (mSymbolExposure s) (mSymbol position) of
                       None \<Rightarrow> 0 | Some e \<Rightarrow> e)
          in (None,
              s\<lparr> mSymbolExposure :=
                   AList.update (mSymbol position) (fsub old exposure) (mSymbolExposure s),
                 mTotalExposure := fsub (mTotalExposure s) exposure,
                 mTodayPnL := fadd (mTodayPnL s) pnl,
                 mOpenPositions := AList.delete positionId (mOpenPositions s) \<rparr>)))"

definition GetTotalExposure :: "CRiskManager \<Rightarrow> real" where
  "GetTotalExposure s = mTotalExposure s"

definition GetSymbolExposure :: "CRiskManager \<Rightarrow> string \<Rightarrow> real" where
  "GetSymbolExposure s symbol =
    (case map_of (mSymbolExposure s) symbol of None \<Rightarrow> 0 | Some e \<Rightarrow> e)"

definition GetTodayPnL :: "CRiskManager \<Rightarrow> real" where
  "GetTodayPnL s = mTodayPnL s"

definition ResetDailyStats :: "CRiskManager \<Rightarrow> time_point \<Rightarrow> CRiskManager" where
  "ResetDailyStats s now = s\<lparr> mTodayPnL := 0, mStartOfDay := now \<rparr>"

text \<open>The sum of the exposures of all symbols of the map.\<close>

definition SumSymbolExposure :: "CRiskManager \<Rightarrow> real" where
  "SumSymbolExposure s = sum_list (map snd (mSymbolExposure s))"

text \<open>A call of one of the state-changing operations of the Risk Manager, and the object
  after a sequence of such calls. A call that throws leaves the object as the throw left it,
  and the caller goes on.\<close>

datatype risk_call =
    CallRegisterPosition SPosition time_point
  | CallClosePosition string real real
  | CallCheckPositionAllowed string EOrderSide real real time_point time_point
  | CallResetDailyStats time_point

fun risk_step :: "CRiskManager \<Rightarrow> risk_call \<Rightarrow> CRiskManager" where
  "risk_step s (CallRegisterPosition p now) = snd (RegisterPosition s p now)"
| "risk_step s (CallClosePosition i exitPrice pnl) = snd (ClosePosition s i exitPrice pnl)"
| "risk_step s (CallCheckPositionAllowed symbol side q price n1 n2) =
     snd (CheckPositionAllowed s symbol side q price n1 n2)"
| "risk_step s (CallResetDailyStats now) = ResetDailyStats s now"

fun risk_run :: "CRiskManager \<Rightarrow> risk_call list \<Rightarrow> CRiskManager" where
  "risk_run s [] = s"
| "risk_run s (c # cs) = risk_run (risk_step s c) cs"

text \<open>The sum of the exposures of all symbols when the doubles are added up one by one, in
  the order of the list (in the runs below, the key order of the \<^verbatim>\<open>std::map\<close>), each sum
  rounded.\<close>

definition SumSymbolExposure_rounded :: "CRiskManager \<Rightarrow> real" where
  "SumSymbolExposure_rounded s = foldl fadd 0 (map snd (mSymbolExposure s))"

text \<open>Whether a call rounds nothing: the product, the sum or difference for the symbol and
  the sum or difference for the total that \<^verbatim>\<open>RegisterPosition\<close> or \<^verbatim>\<open>ClosePosition\<close>
  computes are finite doubles as they stand (a call that throws, and the calls that leave
  the exposures alone, compute none). And whether no call of a sequence does.\<close>

fun unrounded_step :: "CRiskManager \<Rightarrow> risk_call \<Rightarrow> bool" where
  "unrounded_step s (CallRegisterPosition p now) =
     (if mId p = [] then True
      else unrounded (mQuantity p * mEntryPrice p) \<and>
           unrounded (GetSymbolExposure s (mSymbol p) + mQuantity p * mEntryPrice p) \<and>
           unrounded (mTotalExposure s + mQuantity p * mEntryPrice p))"
| "unrounded_step s (CallClosePosition i exitPrice pnl) =
     (case map_of (mOpenPositions s) i of
        None \<Rightarrow> True
      | Some p \<Rightarrow>
          unrounded (mQuantity p * mEntryPrice p) \<and>
          unrounded (GetSymbolExposure s (mSymbol p) - mQuantity p * mEntryPrice p) \<and>
          unrounded (mTotalExposure s - mQuantity p * mEntryPrice p))"
| "unrounded_step s (CallCheckPositionAllowed symbol side q price n1 n2) = True"
| "unrounded_step s (CallResetDailyStats now) = True"

fun unrounded_run :: "CRiskManager \<Rightarrow> risk_call list \<Rightarrow> bool" where
  "unrounded_run s [] = True"
| "unrounded_run s (c # cs) = (unrounded_step s c \<and> unrounded_run (risk_step s c) cs)"

text \<open>The state of scenario 4 of the specification: a fresh Risk Manager (20 per cent of
  the balance of 10000 per symbol) in which one position of a quarter of a BTC bought at
  6000 is registered, so that the exposure on BTCUSDT is 1500.\<close>

definition scenario_position :: SPosition where
  "scenario_position =
    \<lparr> mSymbol = ''BTCUSDT'', mSide = BUY, mEntryPrice = 6000, mQuantity = 1 / 4,
      mEntryTime = 0, mStopLoss = 0, mTakeProfit = 0, mId = ''pos_1'',
      mStrategyName = ''RSI Strategy'', mCurrentPrice = 0, mUnrealizedPnL = 0,
      mCommission = 0 \<rparr>"

definition scenario_risk_state :: CRiskManager where
  "scenario_risk_state = snd (RegisterPosition (CRiskManager_ctor 0 0) scenario_position 0)"

text \<open>Two runs of the Risk Manager. In the first, two positions of 1500 and of 200 are
  registered on two symbols, the pre-trade gate is asked once, and the first position is
  closed: every amount is a small integer. In the second, a position of \<^verbatim>\<open>0.1\<close> at price 1
  is registered on one symbol, a position of \<^verbatim>\<open>0.2\<close> at price 1 on another, and the first
  is closed; \<^verbatim>\<open>0.1\<close> and \<^verbatim>\<open>0.2\<close> are the doubles that these literals denote.\<close>

definition second_position :: SPosition where
  "second_position =
     scenario_position\<lparr> mSymbol := ''ETHUSDT'', mEntryPrice := 100, mQuantity := 2,
                         mId := ''pos_eth'' \<rparr>"

definition integer_calls :: "risk_call list" where
  "integer_calls =
    [CallRegisterPosition scenario_position 0,
     CallRegisterPosition second_position 0,
     CallCheckPositionAllowed ''BTCUSDT'' BUY (1 / 10) 6000 0 0,
     CallClosePosition ''pos_1'' 6100 25]"

definition tenth_position :: SPosition where
  "tenth_position =
     scenario_position\<lparr> mEntryPrice := 1, mQuantity := round64 (1 / 10) \<rparr>"

definition fifth_position :: SPosition where
  "fifth_position =
     scenario_position\<lparr> mSymbol := ''ETHUSDT'', mEntryPrice := 1, mQuantity := round64 (1 / 5),
                         mId := ''pos_eth'' \<rparr>"

definition decimal_calls :: "risk_call list" where
  "decimal_calls =
    [CallRegisterPosition tenth_position 0,
     CallRegisterPosition fifth_position 0,
     CallClosePosition ''pos_1'' 1 0]"

section \<open>Market data and signals (IExchangeAPI.h, IStrategy.h)\<close>

text \<open>\<^verbatim>\<open>API::SKline\<close>: the times are \<^verbatim>\<open>long long\<close> milliseconds.\<close>

record SKline =
  mOpenTime :: int
  mOpen :: real
  mHigh :: real
  mLow :: real
  mClose :: real
  mVolume :: real
  mCloseTime :: int

text \<open>\<^verbatim>\<open>API::STicker\<close>, with the members the strategies read (\<^verbatim>\<open>ticker.mSymbol\<close>,
  \<^verbatim>\<open>ticker.mPrice\<close>, \<^verbatim>\<open>ticker.mVolume\<close>).\<close>

record STicker =
  mSymbol_ticker :: string
  mPrice_ticker :: real
  mVolume_ticker :: real

datatype ESignalType = SIG_BUY | SIG_SELL | HOLD | CLOSE_LONG | CLOSE_SHORT | CANCEL

text \<open>\<^verbatim>\<open>Strategy::SSignal\<close>, with \<^verbatim>\<open>mStrength\<close> as the strategies assign it. The
  parameter map, which nothing of the model reads, is left out. The constructors
  \<^const>\<open>SIG_BUY\<close> and \<^const>\<open>SIG_SELL\<close> are \<^verbatim>\<open>ESignalType::BUY\<close> and
  \<^verbatim>\<open>ESignalType::SELL\<close>.\<close>

record SSignal =
  mType_signal :: ESignalType
  mSymbol_signal :: string
  mPrice_signal :: real
  mQuantity_signal :: real
  mStopLoss_signal :: real
  mTakeProfit_signal :: real
  mConfidence :: real
  mStrength_signal :: real
  mMessage :: string
  mTimestamp_signal :: time_point
  mStrategyName_signal :: string

text \<open>A default-constructed \<^verbatim>\<open>SSignal\<close>; the time point of a default-constructed
  \<^verbatim>\<open>time_point\<close> is the epoch.\<close>

definition SSignal_default :: SSignal where
  "SSignal_default =
    \<lparr> mType_signal = HOLD, mSymbol_signal = [], mPrice_signal = 0, mQuantity_signal = 0,
      mStopLoss_signal = 0, mTakeProfit_signal = 0, mConfidence = 0, mStrength_signal = 0,
      mMessage = [], mTimestamp_signal = 0, mStrategyName_signal = [] \<rparr>"

text \<open>The loop \<^verbatim>\<open>while (d.size() > maxSize) d.pop_front();\<close> that bounds every rolling
  buffer of the strategies.\<close>

function pop_front_while :: "nat \<Rightarrow> 'a list \<Rightarrow> 'a list" where
  "pop_front_while maxSize d =
     (if length d > maxSize then pop_front_while maxSize (tl d) else d)"
  by pat_completeness auto
termination
  by (relation "measure (\<lambda>(maxSize, d). length d)") auto

declare pop_front_while.simps [simp del]

text \<open>\<^verbatim>\<open>std::chrono::duration_cast<std::chrono::minutes>(d).count()\<close>: the whole minutes
  of a number of ticks, rounded towards zero.\<close>

definition duration_cast_minutes :: "int \<Rightarrow> int" where
  "duration_cast_minutes d =
     (if d < 0 then - ((- d) div ticks_per_minute) else d div ticks_per_minute)"

section \<open>RSI strategy (RSIStrategy.h, RSIStrategy.cpp)\<close>

subsection \<open>The kernel\<close>

text \<open>\<^verbatim>\<open>CalculateWildersSmoothing\<close>: the loop adds \<^verbatim>\<open>values[0]\<close> to
  \<^verbatim>\<open>values[count - 1]\<close> to \<open>sum\<close>, from \<open>0.0\<close>.\<close>

definition CalculateWildersSmoothing :: "real list \<Rightarrow> int \<Rightarrow> real" where
  "CalculateWildersSmoothing values period =
    (if values = [] then 0
     else
       (let count = min period (int (length values));
            sum = fold (\<lambda>i sum. sum + values ! i) [0 ..< nat count] 0
        in sum / real_of_int count))"

text \<open>\<^verbatim>\<open>CalculateRSI\<close>. The loop runs \<open>i\<close> from \<^verbatim>\<open>prices.size() - period\<close> to the last
  index. Past the guard \<^verbatim>\<open>period + 1 <= prices.size()\<close>, so for a period that is not
  negative the unsigned subtraction does not wrap and \<open>i - 1\<close> is an index; for the period
  \<open>-1\<close> the loop is empty, as it is in the source.\<close>

definition CalculateRSI :: "real list \<Rightarrow> int \<Rightarrow> real" where
  "CalculateRSI prices period =
    (if length prices < size_t_of_int (period + 1) then 50
     else
       (let idx = [length prices - nat period ..< length prices];
            gains = map (\<lambda>i. let change = prices ! i - prices ! (i - 1)
                              in if change > 0 then change else 0) idx;
            losses = map (\<lambda>i. let change = prices ! i - prices ! (i - 1)
                               in if change < 0 then - change else 0) idx;
            avgGain = CalculateWildersSmoothing gains period;
            avgLoss = CalculateWildersSmoothing losses period
        in if avgLoss = 0 then 100
           else (let rs = avgGain / avgLoss in 100 - (100 / (1 + rs)))))"

text \<open>The RSI as section 4.1 of the specification words it, to compare with the source:
  the last \<open>p + 1\<close> closes, their \<open>p\<close> consecutive changes, the gains \<open>max(\<Delta>, 0)\<close> and
  the losses \<open>max(-\<Delta>, 0)\<close>, the simple averages of the \<open>p\<close> values, \<open>100\<close> when the
  average loss is \<open>0\<close>, and the sentinel \<open>50\<close> when there are fewer than \<open>p + 1\<close> closes.\<close>

definition RSI_spec :: "real list \<Rightarrow> nat \<Rightarrow> real" where
  "RSI_spec x p =
    (if length x < p + 1 then 50
     else
       (let closes = drop (length x - (p + 1)) x;
            deltas = map (\<lambda>k. closes ! (k + 1) - closes ! k) [0 ..< p];
            avg_gain = sum_list (map (\<lambda>d. max d 0) deltas) / real p;
            avg_loss = sum_list (map (\<lambda>d. max (- d) 0) deltas) / real p
        in if avg_loss = 0 then 100
           else 100 - 100 / (1 + avg_gain / avg_loss)))"

subsection \<open>The state of the strategy\<close>

record SRSIParams =
  mRSIPeriod :: int
  mOversoldThreshold :: real
  mOverboughtThreshold :: real
  mExtremeOversold :: real
  mExtremeOverbought :: real
  mPositionSize :: real
  mStopLossPercent :: real
  mTakeProfitPercent :: real
  mMinPeriods :: int
  mUseDivergence :: bool
  mUseMultiTimeframe :: bool
  mRSIChangeThreshold :: real

definition SRSIParams_default :: SRSIParams where
  "SRSIParams_default =
    \<lparr> mRSIPeriod = 14, mOversoldThreshold = 30, mOverboughtThreshold = 70,
      mExtremeOversold = 20, mExtremeOverbought = 80, mPositionSize = 1 / 10,
      mStopLossPercent = 2, mTakeProfitPercent = 4, mMinPeriods = 20,
      mUseDivergence = True, mUseMultiTimeframe = False, mRSIChangeThreshold = 5 \<rparr>"

record SRSIValues =
  mRSI :: real
  mPreviousRSI :: real
  mRSIChange :: real
  mAverageGain :: real
  mAverageLoss :: real
  mTimestamp_values :: time_point
  mIsValid :: bool
  mPeriodCount :: int

definition SRSIValues_default :: SRSIValues where
  "SRSIValues_default =
    \<lparr> mRSI = 50, mPreviousRSI = 50, mRSIChange = 0, mAverageGain = 0, mAverageLoss = 0,
      mTimestamp_values = 0, mIsValid = False, mPeriodCount = 0 \<rparr>"

datatype ERSIZone =
  EXTREME_OVERSOLD | OVERSOLD | NEUTRAL_LOW | NEUTRAL_HIGH | OVERBOUGHT | EXTREME_OVERBOUGHT

datatype ERSISignalType =
  NONE | BUY_OVERSOLD | SELL_OVERBOUGHT | BUY_OVERSOLD_EXIT | SELL_OVERBOUGHT_EXIT
| DIVERGENCE_BULLISH | DIVERGENCE_BEARISH | MOMENTUM_BULLISH | MOMENTUM_BEARISH
| EXTREME_REVERSAL_BUY | EXTREME_REVERSAL_SELL

record SRSISignalHistory =
  mType_hist :: ERSISignalType
  mValues_hist :: SRSIValues
  mZone_hist :: ERSIZone
  mPrice_hist :: real
  mTimestamp_hist :: time_point
  mDescription_hist :: string
  mStrength_hist :: real

record SRSIDivergence =
  mIsBullish :: bool
  mIsBearish :: bool
  mPriceHigh :: real
  mPriceLow :: real
  mRSIHigh :: real
  mRSILow :: real
  mPeriodsSpan :: int
  mStrength_div :: real
  mDetectedAt :: time_point

definition SRSIDivergence_default :: SRSIDivergence where
  "SRSIDivergence_default =
    \<lparr> mIsBullish = False, mIsBearish = False, mPriceHigh = 0, mPriceLow = 0, mRSIHigh = 0,
      mRSILow = 0, mPeriodsSpan = 0, mStrength_div = 0, mDetectedAt = 0 \<rparr>"

text \<open>The data members of \<^verbatim>\<open>CRSIStrategy\<close> that \<^verbatim>\<open>Update\<close> and the functions it calls
  read or write (the trade metrics and the position, which they do not touch, are left
  out), with \<^verbatim>\<open>mName\<close> of the base class.\<close>

record CRSIStrategy =
  mName :: string
  mParams :: SRSIParams
  mIsInitialized :: bool
  mClosePrices :: "real list"
  mGains :: "real list"
  mLosses :: "real list"
  mRSIHistory :: "SRSIValues list"
  mSignalHistory :: "SRSISignalHistory list"
  mCurrentRSIValues :: SRSIValues
  mPreviousRSIValues :: SRSIValues
  mCurrentZone :: ERSIZone
  mPreviousZone :: ERSIZone
  mDivergenceDetectionEnabled :: bool
  mMultiTimeframeEnabled :: bool
  mMinRSIChange :: real
  mDivergenceLookback :: int
  mZoneTimeSpent :: "(ERSIZone \<times> int) list"

text \<open>\<^verbatim>\<open>CRSIStrategy(params)\<close> with the default member initialisers of the class, and
  \<^verbatim>\<open>Initialize\<close> (which \<^verbatim>\<open>ResetMetrics\<close> the metrics too).\<close>

definition CRSIStrategy_ctor :: "SRSIParams \<Rightarrow> CRSIStrategy" where
  "CRSIStrategy_ctor params =
    \<lparr> mName = ''RSI Strategy'', mParams = params, mIsInitialized = False,
      mClosePrices = [], mGains = [], mLosses = [], mRSIHistory = [], mSignalHistory = [],
      mCurrentRSIValues = SRSIValues_default, mPreviousRSIValues = SRSIValues_default,
      mCurrentZone = NEUTRAL_LOW, mPreviousZone = NEUTRAL_LOW,
      mDivergenceDetectionEnabled = True, mMultiTimeframeEnabled = False,
      mMinRSIChange = 5, mDivergenceLookback = 20, mZoneTimeSpent = [] \<rparr>"

definition Initialize :: "CRSIStrategy \<Rightarrow> CRSIStrategy" where
  "Initialize s =
    (if mIsInitialized s then s
     else s\<lparr> mClosePrices := [], mGains := [], mLosses := [], mRSIHistory := [],
             mSignalHistory := [],
             mCurrentRSIValues := SRSIValues_default, mPreviousRSIValues := SRSIValues_default,
             mCurrentZone := NEUTRAL_LOW, mPreviousZone := NEUTRAL_LOW,
             mZoneTimeSpent := [], mIsInitialized := True \<rparr>)"

subsection \<open>Zones and signals\<close>

definition DetermineRSIZone :: "CRSIStrategy \<Rightarrow> real \<Rightarrow> ERSIZone" where
  "DetermineRSIZone s rsi =
    (if rsi \<le> mExtremeOversold (mParams s) then EXTREME_OVERSOLD
     else if rsi \<le> mOversoldThreshold (mParams s) then OVERSOLD
     else if rsi < 50 then NEUTRAL_LOW
     else if rsi < mOverboughtThreshold (mParams s) then NEUTRAL_HIGH
     else if rsi < mExtremeOverbought (mParams s) then OVERBOUGHT
     else EXTREME_OVERBOUGHT)"

definition IsValidRSIValues :: "SRSIValues \<Rightarrow> bool" where
  "IsValidRSIValues values \<longleftrightarrow> mIsValid values \<and> mRSI values \<ge> 0 \<and> mRSI values \<le> 100"

text \<open>\<^verbatim>\<open>IsRSIReversing(periods)\<close>: the loop runs \<open>i\<close> from \<^verbatim>\<open>size - periods\<close> to
  \<^verbatim>\<open>size - 2\<close> and clears the two flags.\<close>

definition IsRSIReversing :: "CRSIStrategy \<Rightarrow> nat \<Rightarrow> bool" where
  "IsRSIReversing s periods =
    (let h = mRSIHistory s
     in if length h < periods + 1 then False
        else
          (let idx = [length h - periods ..< length h - 1];
               wasIncreasing =
                 fold (\<lambda>i w. if mRSI (h ! (i + 1)) \<le> mRSI (h ! i) then False else w) idx True;
               wasDecreasing =
                 fold (\<lambda>i w. if mRSI (h ! (i + 1)) \<ge> mRSI (h ! i) then False else w) idx True;
               currentChange = mRSIChange (mCurrentRSIValues s)
           in (wasIncreasing \<and> currentChange < 0) \<or> (wasDecreasing \<and> currentChange > 0)))"

text \<open>\<^verbatim>\<open>DetectZoneTransition\<close>: zone entries, then zone exits, then the reversals out of
  an extreme zone (\<^verbatim>\<open>IsRSIReversing()\<close> has the default argument 3).\<close>

definition DetectZoneTransition ::
  "CRSIStrategy \<Rightarrow> ERSIZone \<Rightarrow> ERSIZone \<Rightarrow> SRSIValues \<Rightarrow> ERSISignalType" where
  "DetectZoneTransition s currentZone previousZone values =
    (if currentZone = OVERSOLD \<and> previousZone \<noteq> OVERSOLD \<and> previousZone \<noteq> EXTREME_OVERSOLD
     then BUY_OVERSOLD
     else if currentZone = OVERBOUGHT \<and> previousZone \<noteq> OVERBOUGHT
               \<and> previousZone \<noteq> EXTREME_OVERBOUGHT
     then SELL_OVERBOUGHT
     else if (previousZone = OVERSOLD \<or> previousZone = EXTREME_OVERSOLD)
               \<and> (currentZone = NEUTRAL_LOW \<or> currentZone = NEUTRAL_HIGH)
     then BUY_OVERSOLD_EXIT
     else if (previousZone = OVERBOUGHT \<or> previousZone = EXTREME_OVERBOUGHT)
               \<and> (currentZone = NEUTRAL_HIGH \<or> currentZone = NEUTRAL_LOW)
     then SELL_OVERBOUGHT_EXIT
     else if currentZone = EXTREME_OVERSOLD \<and> IsRSIReversing s 3 then EXTREME_REVERSAL_BUY
     else if currentZone = EXTREME_OVERBOUGHT \<and> IsRSIReversing s 3 then EXTREME_REVERSAL_SELL
     else NONE)"

definition DetectMomentumSignal ::
  "CRSIStrategy \<Rightarrow> SRSIValues \<Rightarrow> SRSIValues \<Rightarrow> ERSISignalType" where
  "DetectMomentumSignal s current previous =
    (if mRSIChange current > mMinRSIChange s \<and> mRSIChange current > mRSIChange previous
          \<and> mRSI current > 50
     then MOMENTUM_BULLISH
     else if mRSIChange current < - mMinRSIChange s \<and> mRSIChange current < mRSIChange previous
               \<and> mRSI current < 50
     then MOMENTUM_BEARISH
     else NONE)"

definition AnalyzeRSISignal ::
  "CRSIStrategy \<Rightarrow> SRSIValues \<Rightarrow> SRSIValues \<Rightarrow> ERSISignalType" where
  "AnalyzeRSISignal s current previous =
    (if \<not> IsValidRSIValues current \<or> \<not> IsValidRSIValues previous then NONE
     else
       (let momentumSignal = DetectMomentumSignal s current previous
        in if momentumSignal \<noteq> NONE then momentumSignal
           else
             (let currentZone = DetermineRSIZone s (mRSI current);
                  previousZone = DetermineRSIZone s (mRSI previous)
              in DetectZoneTransition s currentZone previousZone current)))"

subsection \<open>Divergence\<close>

text \<open>\<^verbatim>\<open>FindPriceHighsAndLows\<close> and \<^verbatim>\<open>FindRSIHighsAndLows\<close> fill two vectors, empty at
  the call, with the indices of the local highs and lows; the model returns them beside the
  result.\<close>

definition FindPriceHighsAndLows :: "real list \<Rightarrow> nat \<Rightarrow> bool \<times> nat list \<times> nat list" where
  "FindPriceHighsAndLows prices lookback =
    (if length prices < lookback + 2 then (False, [], [])
     else
       (let start = length prices - lookback;
            idx = [start + 1 ..< length prices - 1];
            highs = filter (\<lambda>i. prices ! i > prices ! (i - 1) \<and> prices ! i > prices ! (i + 1)) idx;
            lows = filter (\<lambda>i. prices ! i < prices ! (i - 1) \<and> prices ! i < prices ! (i + 1)) idx
        in (highs \<noteq> [] \<and> lows \<noteq> [], highs, lows)))"

definition FindRSIHighsAndLows :: "SRSIValues list \<Rightarrow> nat \<Rightarrow> bool \<times> nat list \<times> nat list" where
  "FindRSIHighsAndLows rsiHistory lookback =
    (if length rsiHistory < lookback + 2 then (False, [], [])
     else
       (let start = length rsiHistory - lookback;
            idx = [start + 1 ..< length rsiHistory - 1];
            highs = filter (\<lambda>i. mRSI (rsiHistory ! i) > mRSI (rsiHistory ! (i - 1))
                              \<and> mRSI (rsiHistory ! i) > mRSI (rsiHistory ! (i + 1))) idx;
            lows = filter (\<lambda>i. mRSI (rsiHistory ! i) < mRSI (rsiHistory ! (i - 1))
                             \<and> mRSI (rsiHistory ! i) < mRSI (rsiHistory ! (i + 1))) idx
        in (highs \<noteq> [] \<and> lows \<noteq> [], highs, lows)))"

definition CalculateDivergenceStrength :: "SRSIDivergence \<Rightarrow> real" where
  "CalculateDivergenceStrength divergence =
    (let strength =
           (if mIsBullish divergence then min 1 ((50 - mRSILow divergence) / 30)
            else if mIsBearish divergence then min 1 ((mRSIHigh divergence - 50) / 30)
            else 1 / 2)
     in max (1 / 10) strength)"

definition AnalyzeDivergence ::
  "real list \<Rightarrow> SRSIValues list \<Rightarrow> nat \<Rightarrow> time_point \<Rightarrow> SRSIDivergence" where
  "AnalyzeDivergence prices rsiHistory lookback now =
    (let divergence = SRSIDivergence_default
     in if length prices < lookback \<or> length rsiHistory < lookback then divergence
        else
          (let (priceOk, priceHighs, priceLows) = FindPriceHighsAndLows prices lookback
           in if \<not> priceOk then divergence
              else
                (let (rsiOk, rsiHighs, rsiLows) = FindRSIHighsAndLows rsiHistory lookback
                 in if \<not> rsiOk then divergence
                    else
                      (let d1 =
                             (if length priceLows \<ge> 2 \<and> length rsiLows \<ge> 2
                              then
                                (let lastPriceLow = last priceLows;
                                     prevPriceLow = priceLows ! (length priceLows - 2);
                                     lastRSILow = last rsiLows;
                                     prevRSILow = rsiLows ! (length rsiLows - 2)
                                 in if prices ! lastPriceLow < prices ! prevPriceLow
                                       \<and> mRSI (rsiHistory ! lastRSILow) > mRSI (rsiHistory ! prevRSILow)
                                    then
                                      (let d = divergence\<lparr> mIsBullish := True,
                                                 mPriceLow := prices ! lastPriceLow,
                                                 mRSILow := mRSI (rsiHistory ! lastRSILow) \<rparr>
                                       in d\<lparr> mStrength_div := CalculateDivergenceStrength d \<rparr>)
                                    else divergence)
                              else divergence);
                           d2 =
                             (if length priceHighs \<ge> 2 \<and> length rsiHighs \<ge> 2
                              then
                                (let lastPriceHigh = last priceHighs;
                                     prevPriceHigh = priceHighs ! (length priceHighs - 2);
                                     lastRSIHigh = last rsiHighs;
                                     prevRSIHigh = rsiHighs ! (length rsiHighs - 2)
                                 in if prices ! lastPriceHigh > prices ! prevPriceHigh
                                       \<and> mRSI (rsiHistory ! lastRSIHigh) < mRSI (rsiHistory ! prevRSIHigh)
                                    then
                                      (let d = d1\<lparr> mIsBearish := True,
                                                 mPriceHigh := prices ! lastPriceHigh,
                                                 mRSIHigh := mRSI (rsiHistory ! lastRSIHigh) \<rparr>
                                       in d\<lparr> mStrength_div := CalculateDivergenceStrength d \<rparr>)
                                    else d1)
                              else d1)
                       in if mIsBullish d2 \<or> mIsBearish d2
                          then d2\<lparr> mDetectedAt := now, mPeriodsSpan := int lookback \<rparr>
                          else d2))))"

definition DetectDivergence :: "CRSIStrategy \<Rightarrow> nat \<Rightarrow> time_point \<Rightarrow> SRSIDivergence" where
  "DetectDivergence s lookbackPeriods now =
     AnalyzeDivergence (mClosePrices s) (mRSIHistory s) lookbackPeriods now"

subsection \<open>Signal strength and names\<close>

definition GetSignalStrength :: "CRSIStrategy \<Rightarrow> ERSISignalType \<Rightarrow> SRSIValues \<Rightarrow> real" where
  "GetSignalStrength s signalType values =
    (let strength =
       (case signalType of
          BUY_OVERSOLD \<Rightarrow>
            max 0 ((mOversoldThreshold (mParams s) - mRSI values) / mOversoldThreshold (mParams s))
        | SELL_OVERBOUGHT \<Rightarrow>
            max 0 ((mRSI values - mOverboughtThreshold (mParams s))
                     / (100 - mOverboughtThreshold (mParams s)))
        | EXTREME_REVERSAL_BUY \<Rightarrow> 9 / 10
        | EXTREME_REVERSAL_SELL \<Rightarrow> 9 / 10
        | DIVERGENCE_BULLISH \<Rightarrow> 8 / 10
        | DIVERGENCE_BEARISH \<Rightarrow> 8 / 10
        | MOMENTUM_BULLISH \<Rightarrow> min 1 (\<bar>mRSIChange values\<bar> / 20)
        | MOMENTUM_BEARISH \<Rightarrow> min 1 (\<bar>mRSIChange values\<bar> / 20)
        | _ \<Rightarrow> 1 / 2)
     in max 0 (min 1 strength))"

fun SignalTypeToString :: "ERSISignalType \<Rightarrow> string" where
  "SignalTypeToString NONE = ''None''"
| "SignalTypeToString BUY_OVERSOLD = ''Buy Oversold''"
| "SignalTypeToString SELL_OVERBOUGHT = ''Sell Overbought''"
| "SignalTypeToString BUY_OVERSOLD_EXIT = ''Buy Oversold Exit''"
| "SignalTypeToString SELL_OVERBOUGHT_EXIT = ''Sell Overbought Exit''"
| "SignalTypeToString DIVERGENCE_BULLISH = ''Bullish Divergence''"
| "SignalTypeToString DIVERGENCE_BEARISH = ''Bearish Divergence''"
| "SignalTypeToString MOMENTUM_BULLISH = ''Bullish Momentum''"
| "SignalTypeToString MOMENTUM_BEARISH = ''Bearish Momentum''"
| "SignalTypeToString EXTREME_REVERSAL_BUY = ''Extreme Reversal Buy''"
| "SignalTypeToString EXTREME_REVERSAL_SELL = ''Extreme Reversal Sell''"

subsection \<open>Rolling buffers\<close>

text \<open>The loop of \<^verbatim>\<open>UpdateGainsAndLosses\<close> pops the front of both deques while the
  gains are too many.\<close>

function pop_front_both :: "nat \<Rightarrow> 'a list \<times> 'a list \<Rightarrow> 'a list \<times> 'a list" where
  "pop_front_both maxSize (g, l) =
     (if length g > maxSize then pop_front_both maxSize (tl g, tl l) else (g, l))"
  by pat_completeness auto
termination
  by (relation "measure (\<lambda>(maxSize, g, l). length g)") auto

declare pop_front_both.simps [simp del]

definition UpdateGainsAndLosses :: "CRSIStrategy \<Rightarrow> real \<Rightarrow> real \<Rightarrow> CRSIStrategy" where
  "UpdateGainsAndLosses s currentPrice previousPrice =
    (let change = currentPrice - previousPrice;
         (g, l) = (if change > 0 then (mGains s @ [change], mLosses s @ [0])
                   else (mGains s @ [0], mLosses s @ [- change]));
         maxSize = size_t_of_int (mRSIPeriod (mParams s) * 2);
         (g', l') = pop_front_both maxSize (g, l)
     in s\<lparr> mGains := g', mLosses := l' \<rparr>)"

text \<open>\<^verbatim>\<open>UpdateClosePrices\<close>: the body of the loop appends one candle; then the buffer is
  cut to \<^verbatim>\<open>std::max(mParams.mRSIPeriod * 3, 200)\<close> (an \<^verbatim>\<open>int\<close>, taken without overflow
  of the product).\<close>

definition UpdateClosePrices_body :: "SKline \<Rightarrow> CRSIStrategy \<Rightarrow> CRSIStrategy" where
  "UpdateClosePrices_body kline s =
    (let s' = (if mClosePrices s \<noteq> []
               then UpdateGainsAndLosses s (mClose kline) (last (mClosePrices s))
               else s)
     in s'\<lparr> mClosePrices := mClosePrices s' @ [mClose kline] \<rparr>)"

definition UpdateClosePrices :: "CRSIStrategy \<Rightarrow> SKline list \<Rightarrow> CRSIStrategy" where
  "UpdateClosePrices s klines =
    (let s1 = fold UpdateClosePrices_body klines s;
         maxSize = nat (max (mRSIPeriod (mParams s1) * 3) 200)
     in s1\<lparr> mClosePrices := pop_front_while maxSize (mClosePrices s1) \<rparr>)"

definition UpdateRSIHistory :: "CRSIStrategy \<Rightarrow> CRSIStrategy" where
  "UpdateRSIHistory s =
    (let h = mRSIHistory s @ [mCurrentRSIValues s];
         maxSize = 500
     in s\<lparr> mRSIHistory := pop_front_while maxSize h \<rparr>)"

definition AddSignalToHistory ::
  "CRSIStrategy \<Rightarrow> ERSISignalType \<Rightarrow> SRSIValues \<Rightarrow> real \<Rightarrow> string \<Rightarrow> time_point
     \<Rightarrow> CRSIStrategy" where
  "AddSignalToHistory s signalType values price description now =
    (let signal = \<lparr> mType_hist = signalType, mValues_hist = values, mZone_hist = mCurrentZone s,
                     mPrice_hist = price, mTimestamp_hist = now,
                     mDescription_hist = description,
                     mStrength_hist = GetSignalStrength s signalType values \<rparr>;
         h = mSignalHistory s @ [signal];
         maxSize = 100
     in s\<lparr> mSignalHistory := pop_front_while maxSize h \<rparr>)"

definition HasSufficientData :: "CRSIStrategy \<Rightarrow> bool" where
  "HasSufficientData s \<longleftrightarrow>
     length (mClosePrices s) \<ge> size_t_of_int (mRSIPeriod (mParams s) + 1)"

text \<open>\<^verbatim>\<open>ShouldGenerateSignal\<close> looks at the last entry of the signal history only.\<close>

definition ShouldGenerateSignal :: "CRSIStrategy \<Rightarrow> ERSISignalType \<Rightarrow> time_point \<Rightarrow> bool" where
  "ShouldGenerateSignal s signalType now =
    (if mSignalHistory s \<noteq> []
     then
       (let lastSignal = last (mSignalHistory s);
            timeDiff = duration_cast_minutes (now - mTimestamp_hist lastSignal)
        in if mType_hist lastSignal = signalType \<and> timeDiff < 10 then False else True)
     else True)"

definition UpdateZoneStatistics :: "CRSIStrategy \<Rightarrow> ERSIZone \<Rightarrow> CRSIStrategy" where
  "UpdateZoneStatistics s zone =
    s\<lparr> mZoneTimeSpent :=
         AList.update zone
           ((case map_of (mZoneTimeSpent s) zone of None \<Rightarrow> 0 | Some n \<Rightarrow> n) + 1)
           (mZoneTimeSpent s) \<rparr>"

subsection \<open>Update\<close>

text \<open>\<^verbatim>\<open>CalculateRSIValues(prices, outValues)\<close>, as \<^verbatim>\<open>Update\<close> calls it, its only caller:
  \<open>outValues\<close> is a reference to the member \<^verbatim>\<open>mCurrentRSIValues\<close>. Every assignment to
  \<open>outValues\<close> is an assignment to the member, in the order of the source, and
  \<^verbatim>\<open>outValues.mPreviousRSI = mCurrentRSIValues.mRSI\<close> reads the member after
  \<^verbatim>\<open>outValues.mRSI\<close> was assigned.\<close>

definition CalculateRSIValues :: "CRSIStrategy \<Rightarrow> real list \<Rightarrow> time_point \<Rightarrow> CRSIStrategy" where
  "CalculateRSIValues s prices now =
    (let period = mRSIPeriod (mParams s)
     in if length prices < size_t_of_int (period + 1)
        then s\<lparr> mCurrentRSIValues := (mCurrentRSIValues s)\<lparr> mIsValid := False \<rparr> \<rparr>
        else
          (let s1 = s\<lparr> mCurrentRSIValues :=
                        (mCurrentRSIValues s)\<lparr> mRSI := CalculateRSI prices period \<rparr> \<rparr>;
               s2 = s1\<lparr> mCurrentRSIValues :=
                         (mCurrentRSIValues s1)\<lparr> mPreviousRSI := mRSI (mCurrentRSIValues s1) \<rparr> \<rparr>;
               s3 = s2\<lparr> mCurrentRSIValues :=
                         (mCurrentRSIValues s2)\<lparr> mRSIChange :=
                            mRSI (mCurrentRSIValues s2) - mPreviousRSI (mCurrentRSIValues s2) \<rparr> \<rparr>;
               idx = [length prices - nat period ..< length prices];
               gains = map (\<lambda>i. let change = prices ! i - prices ! (i - 1)
                                 in if change > 0 then change else 0) idx;
               losses = map (\<lambda>i. let change = prices ! i - prices ! (i - 1)
                                  in if change < 0 then - change else 0) idx
           in s3\<lparr> mCurrentRSIValues :=
                    (mCurrentRSIValues s3)\<lparr>
                       mAverageGain := CalculateWildersSmoothing gains period,
                       mAverageLoss := CalculateWildersSmoothing losses period,
                       mTimestamp_values := now,
                       mPeriodCount := int (length prices),
                       mIsValid := True \<rparr> \<rparr>))"

text \<open>The clock as one call of \<^verbatim>\<open>Update\<close> reads it: for the time stamp of the returned
  signal, in \<^verbatim>\<open>CalculateRSIValues\<close>, in \<^verbatim>\<open>AnalyzeDivergence\<close>, in
  \<^verbatim>\<open>ShouldGenerateSignal\<close> and in \<^verbatim>\<open>AddSignalToHistory\<close>.\<close>

record update_clock =
  now_signal :: time_point
  now_values :: time_point
  now_divergence :: time_point
  now_should :: time_point
  now_history :: time_point

text \<open>The value of the local variable \<^verbatim>\<open>signalType\<close> of \<^verbatim>\<open>Update\<close> when the three
  classification steps are done: \<^verbatim>\<open>AnalyzeRSISignal\<close> on the current and previous values,
  then \<^verbatim>\<open>DetectZoneTransition\<close> on the zones of the object, then the divergence.\<close>

definition Update_signalType :: "CRSIStrategy \<Rightarrow> time_point \<Rightarrow> ERSISignalType" where
  "Update_signalType s now =
    (let signalType = AnalyzeRSISignal s (mCurrentRSIValues s) (mPreviousRSIValues s);
         signalType =
           (if signalType = NONE
            then DetectZoneTransition s (mCurrentZone s) (mPreviousZone s) (mCurrentRSIValues s)
            else signalType)
     in if signalType = NONE \<and> mDivergenceDetectionEnabled s
        then
          (let divergence = DetectDivergence s (size_t_of_int (mDivergenceLookback s)) now
           in if mIsBullish divergence then DIVERGENCE_BULLISH
              else if mIsBearish divergence then DIVERGENCE_BEARISH
              else signalType)
        else signalType)"

text \<open>The \<^verbatim>\<open>switch\<close> of \<^verbatim>\<open>Update\<close> from the RSI signal to the general signal.\<close>

fun general_signal :: "ERSISignalType \<Rightarrow> ESignalType" where
  "general_signal BUY_OVERSOLD = SIG_BUY"
| "general_signal BUY_OVERSOLD_EXIT = SIG_BUY"
| "general_signal DIVERGENCE_BULLISH = SIG_BUY"
| "general_signal MOMENTUM_BULLISH = SIG_BUY"
| "general_signal EXTREME_REVERSAL_BUY = SIG_BUY"
| "general_signal SELL_OVERBOUGHT = SIG_SELL"
| "general_signal SELL_OVERBOUGHT_EXIT = SIG_SELL"
| "general_signal DIVERGENCE_BEARISH = SIG_SELL"
| "general_signal MOMENTUM_BEARISH = SIG_SELL"
| "general_signal EXTREME_REVERSAL_SELL = SIG_SELL"
| "general_signal NONE = HOLD"

text \<open>\<^verbatim>\<open>Update\<close>. Nothing that the body of its \<^verbatim>\<open>try\<close> block calls throws in the model,
  so the \<^verbatim>\<open>catch\<close> is not reached.\<close>

definition Update ::
  "CRSIStrategy \<Rightarrow> SKline list \<Rightarrow> STicker \<Rightarrow> update_clock \<Rightarrow> SSignal \<times> CRSIStrategy" where
  "Update s klines ticker clk =
    (let signal = SSignal_default\<lparr> mType_signal := HOLD, mStrategyName_signal := mName s,
                    mSymbol_signal := mSymbol_ticker ticker,
                    mTimestamp_signal := now_signal clk \<rparr>
     in if \<not> mIsInitialized s \<or> klines = []
        then (signal\<lparr> mMessage := ''Strategy not initialized or no data'' \<rparr>, s)
        else
          (let s1 = UpdateClosePrices s klines
           in if \<not> HasSufficientData s1
              then (signal\<lparr> mMessage := ''Insufficient data for RSI calculation'' \<rparr>, s1)
              else
                (let s2 = s1\<lparr> mPreviousRSIValues := mCurrentRSIValues s1,
                               mPreviousZone := mCurrentZone s1 \<rparr>;
                     s3 = CalculateRSIValues s2 (mClosePrices s2) (now_values clk)
                 in if \<not> IsValidRSIValues (mCurrentRSIValues s3)
                    then (signal\<lparr> mMessage := ''Invalid RSI values calculated'' \<rparr>, s3)
                    else
                      (let s4 = s3\<lparr> mCurrentZone :=
                                       DetermineRSIZone s3 (mRSI (mCurrentRSIValues s3)) \<rparr>;
                           s5 = UpdateRSIHistory s4;
                           signalType = Update_signalType s5 (now_divergence clk);
                           (signal', s6) =
                             (if signalType \<noteq> NONE
                                   \<and> ShouldGenerateSignal s5 signalType (now_should clk)
                              then
                                (let sig = signal\<lparr> mType_signal := general_signal signalType,
                                             mPrice_signal := mPrice_ticker ticker,
                                             mMessage := SignalTypeToString signalType,
                                             mStrength_signal :=
                                               GetSignalStrength s5 signalType (mCurrentRSIValues s5) \<rparr>
                                 in (sig,
                                     AddSignalToHistory s5 signalType (mCurrentRSIValues s5)
                                       (mPrice_ticker ticker) (mMessage sig) (now_history clk)))
                              else (signal, s5))
                       in (signal', UpdateZoneStatistics s6 (mCurrentZone s6))))))"

text \<open>The object after a sequence of calls of \<^verbatim>\<open>Update\<close>, each with its candles, its
  ticker and its clock.\<close>

fun rsi_run :: "CRSIStrategy \<Rightarrow> (SKline list \<times> STicker \<times> update_clock) list \<Rightarrow> CRSIStrategy" where
  "rsi_run s [] = s"
| "rsi_run s ((klines, ticker, clk) # calls) = rsi_run (snd (Update s klines ticker clk)) calls"

subsection \<open>The bound on the buffers, and the classification rules one by one\<close>

text \<open>The three bounds of the rolling buffers of the RSI strategy.\<close>

definition rsi_bounded :: "CRSIStrategy \<Rightarrow> bool" where
  "rsi_bounded s \<longleftrightarrow>
     length (mRSIHistory s) \<le> 500 \<and> length (mSignalHistory s) \<le> 100 \<and>
     int (length (mClosePrices s)) \<le> max (mRSIPeriod (mParams s) * 3) 200"






text \<open>The object at the point where \<^verbatim>\<open>Update\<close> classifies the signal: after
  \<^verbatim>\<open>UpdateClosePrices\<close>, the saving of the previous values and zone,
  \<^verbatim>\<open>CalculateRSIValues\<close>, the assignment of the current zone and \<^verbatim>\<open>UpdateRSIHistory\<close>
  (the object \<open>s5\<close> of \<^const>\<open>Update\<close>).\<close>

definition Update_classification_state ::
  "CRSIStrategy \<Rightarrow> SKline list \<Rightarrow> update_clock \<Rightarrow> CRSIStrategy" where
  "Update_classification_state s klines clk =
    (let s1 = UpdateClosePrices s klines;
         s2 = s1\<lparr> mPreviousRSIValues := mCurrentRSIValues s1,
                   mPreviousZone := mCurrentZone s1 \<rparr>;
         s3 = CalculateRSIValues s2 (mClosePrices s2) (now_values clk);
         s4 = s3\<lparr> mCurrentZone := DetermineRSIZone s3 (mRSI (mCurrentRSIValues s3)) \<rparr>
     in UpdateRSIHistory s4)"


text \<open>What every call of \<^verbatim>\<open>Update\<close> keeps true of the object: the RSI change stored in the
  current and in the previous values is 0 (\<^verbatim>\<open>CalculateRSIValues\<close> subtracts the new RSI
  from itself), and the current zone is the zone of the current RSI when the current values
  are valid.\<close>

definition rsi_consistent :: "CRSIStrategy \<Rightarrow> bool" where
  "rsi_consistent s \<longleftrightarrow>
     mRSIChange (mCurrentRSIValues s) = 0 \<and> mRSIChange (mPreviousRSIValues s) = 0 \<and>
     (IsValidRSIValues (mCurrentRSIValues s)
        \<longrightarrow> mCurrentZone s = DetermineRSIZone s (mRSI (mCurrentRSIValues s)))"

text \<open>Whether any two entries of a signal history that stand next to each other and have
  the same kind are at least \<open>c\<close> ticks apart, and whether in every call of a sequence the
  clock does not run backwards between \<^verbatim>\<open>ShouldGenerateSignal\<close> and
  \<^verbatim>\<open>AddSignalToHistory\<close>.\<close>

fun adjacent_cooled :: "int \<Rightarrow> SRSISignalHistory list \<Rightarrow> bool" where
  "adjacent_cooled c (a # b # h) =
     ((if mType_hist a = mType_hist b then c \<le> mTimestamp_hist b - mTimestamp_hist a else True)
      \<and> adjacent_cooled c (b # h))"
| "adjacent_cooled c h = True"

fun clocks_forward :: "(SKline list \<times> STicker \<times> update_clock) list \<Rightarrow> bool" where
  "clocks_forward [] = True"
| "clocks_forward ((klines, ticker, clk) # calls) =
     (now_should clk \<le> now_history clk \<and> clocks_forward calls)"

text \<open>Fixtures for the RSI strategy: a candle of which only the close matters, a ticker, a
  clock that reads the same time throughout one call of \<^verbatim>\<open>Update\<close>, and three calls of
  \<^verbatim>\<open>Update\<close>, one minute apart, on a strategy of period 2. The two changes of the last
  three closes are +29 and -71, then +31 and -69, then +29 and -71 again, so the RSI is 29,
  then 31, then 29: it enters the oversold zone (below 30), leaves it and enters it again,
  never moving by more than the 5 points that momentum needs.\<close>

definition candle :: "real \<Rightarrow> SKline" where
  "candle c = \<lparr> mOpenTime = 0, mOpen = c, mHigh = c, mLow = c, mClose = c, mVolume = 1,
                mCloseTime = 0 \<rparr>"

definition btc_ticker :: STicker where
  "btc_ticker = \<lparr> mSymbol_ticker = ''BTCUSDT'', mPrice_ticker = 98, mVolume_ticker = 1 \<rparr>"

definition clock_at :: "time_point \<Rightarrow> update_clock" where
  "clock_at t = \<lparr> now_signal = t, now_values = t, now_divergence = t, now_should = t,
                  now_history = t \<rparr>"

definition short_rsi_strategy :: CRSIStrategy where
  "short_rsi_strategy = Initialize (CRSIStrategy_ctor (SRSIParams_default\<lparr> mRSIPeriod := 2 \<rparr>))"

definition alternating_calls :: "(SKline list \<times> STicker \<times> update_clock) list" where
  "alternating_calls =
    [([candle 1000, candle 1029, candle 958], btc_ticker, clock_at 0),
     ([candle 989, candle 920], btc_ticker, clock_at (1 * ticks_per_minute)),
     ([candle 949, candle 878], btc_ticker, clock_at (2 * ticks_per_minute))]"



section \<open>SMA strategy (SMAStrategy.h, SMAStrategy.cpp)\<close>

record SSMAParams =
  mFastPeriod :: int
  mSlowPeriod :: int
  mLongPeriod :: int
  mPositionSize_sma :: real
  mStopLossPercent_sma :: real
  mTakeProfitPercent_sma :: real
  mMinPeriods_sma :: int
  mUseTripleMA :: bool
  mUseSlopeFilter :: bool
  mMinSlope_param :: real
  mUseVolumeFilter :: bool
  mVolumeThreshold :: real

record SSMAValues =
  mFastSMA :: real
  mSlowSMA :: real
  mLongSMA :: real
  mFastSlope :: real
  mSlowSlope :: real
  mLongSlope :: real
  mSpread :: real
  mSpreadPercent :: real
  mTimestamp_sma :: time_point
  mIsValid_sma :: bool
  mPeriodCount_sma :: int

datatype ESMAConfiguration = DUAL_MA | TRIPLE_MA | SINGLE_MA_PRICE

datatype ESMASignalType =
  SMA_NONE | GOLDEN_CROSS | DEATH_CROSS | PRICE_ABOVE_MA | PRICE_BELOW_MA
| TREND_ACCELERATION | TREND_DECELERATION | PULLBACK_BUY | PULLBACK_SELL
| TRIPLE_ALIGNMENT_BULL | TRIPLE_ALIGNMENT_BEAR | CONVERGENCE | DIVERGENCE

datatype ESMATrend = STRONG_UPTREND | WEAK_UPTREND | SIDEWAYS | WEAK_DOWNTREND | STRONG_DOWNTREND

record SSMASignalHistory =
  mType_smahist :: ESMASignalType
  mValues_smahist :: SSMAValues
  mTrend_smahist :: ESMATrend
  mPrice_smahist :: real
  mVolume_smahist :: real
  mTimestamp_smahist :: time_point
  mDescription_smahist :: string
  mStrength_smahist :: real

text \<open>The data members of \<^verbatim>\<open>CSMAStrategy\<close> that the classification of a signal and
  \<^verbatim>\<open>ShouldGenerateSignal\<close> read; \<^verbatim>\<open>mCurrentTrend\<close> is
  \<^verbatim>\<open>mTrendAnalysis.mCurrentTrend\<close>.\<close>

record CSMAStrategy =
  mParams_sma :: SSMAParams
  mConfiguration :: ESMAConfiguration
  mClosePrices_sma :: "real list"
  mSignalHistory_sma :: "SSMASignalHistory list"
  mCurrentSMAValues :: SSMAValues
  mPreviousSMAValues :: SSMAValues
  mCurrentTrend :: ESMATrend
  mMinSlope :: real

definition IsValidSMAValues :: "CSMAStrategy \<Rightarrow> SSMAValues \<Rightarrow> bool" where
  "IsValidSMAValues s values \<longleftrightarrow>
     mIsValid_sma values \<and> mFastSMA values > 0 \<and> mSlowSMA values > 0 \<and>
     (\<not> mUseTripleMA (mParams_sma s) \<or> mLongSMA values > 0)"

definition IsGoldenCross :: "SSMAValues \<Rightarrow> SSMAValues \<Rightarrow> bool" where
  "IsGoldenCross current previous \<longleftrightarrow>
     mFastSMA previous \<le> mSlowSMA previous \<and> mFastSMA current > mSlowSMA current"

definition IsDeathCross :: "SSMAValues \<Rightarrow> SSMAValues \<Rightarrow> bool" where
  "IsDeathCross current previous \<longleftrightarrow>
     mFastSMA previous \<ge> mSlowSMA previous \<and> mFastSMA current < mSlowSMA current"

text \<open>\<^verbatim>\<open>IsTripleAlignment\<close> reads the current values of the object.\<close>

definition IsTripleAlignment :: "CSMAStrategy \<Rightarrow> bool \<Rightarrow> bool" where
  "IsTripleAlignment s bullish =
    (if mConfiguration s \<noteq> TRIPLE_MA then False
     else
       (let values = mCurrentSMAValues s
        in if bullish
           then mFastSMA values > mSlowSMA values \<and> mSlowSMA values > mLongSMA values
           else mFastSMA values < mSlowSMA values \<and> mSlowSMA values < mLongSMA values))"

definition IsPullbackOpportunity :: "CSMAStrategy \<Rightarrow> bool \<Rightarrow> bool" where
  "IsPullbackOpportunity s bullish =
    (let values = mCurrentSMAValues s
     in if bullish
        then mFastSMA values > mSlowSMA values \<and> mCurrentTrend s = STRONG_UPTREND \<and>
             mClosePrices_sma s \<noteq> [] \<and>
             \<bar>last (mClosePrices_sma s) - mFastSMA values\<bar> / mFastSMA values < 5 / 1000
        else mFastSMA values < mSlowSMA values \<and> mCurrentTrend s = STRONG_DOWNTREND \<and>
             mClosePrices_sma s \<noteq> [] \<and>
             \<bar>last (mClosePrices_sma s) - mFastSMA values\<bar> / mFastSMA values < 5 / 1000)"

definition DetectCrossover :: "SSMAValues \<Rightarrow> SSMAValues \<Rightarrow> ESMASignalType" where
  "DetectCrossover current previous =
    (if IsGoldenCross current previous then GOLDEN_CROSS
     else if IsDeathCross current previous then DEATH_CROSS
     else SMA_NONE)"

definition DetectTrendSignals :: "CSMAStrategy \<Rightarrow> SSMAValues \<Rightarrow> SSMAValues \<Rightarrow> ESMASignalType" where
  "DetectTrendSignals s current previous =
    (if mFastSlope current > mFastSlope previous \<and> mFastSlope current > mMinSlope s * 2
     then TREND_ACCELERATION
     else if mFastSlope current < mFastSlope previous \<and> \<bar>mFastSlope current\<bar> < mMinSlope s
     then TREND_DECELERATION
     else if IsPullbackOpportunity s True then PULLBACK_BUY
     else if IsPullbackOpportunity s False then PULLBACK_SELL
     else SMA_NONE)"

text \<open>\<^verbatim>\<open>DetectTripleMASignals\<close>, with the two conditions as the source writes them:
  \<^verbatim>\<open>IsTripleAlignment(true) && !IsTripleAlignment(true)\<close> and the same with
  \<^verbatim>\<open>false\<close>.\<close>

definition DetectTripleMASignals ::
  "CSMAStrategy \<Rightarrow> SSMAValues \<Rightarrow> SSMAValues \<Rightarrow> ESMASignalType" where
  "DetectTripleMASignals s current previous =
    (if mConfiguration s \<noteq> TRIPLE_MA then SMA_NONE
     else if IsTripleAlignment s True \<and> \<not> IsTripleAlignment s True then TRIPLE_ALIGNMENT_BULL
     else if IsTripleAlignment s False \<and> \<not> IsTripleAlignment s False then TRIPLE_ALIGNMENT_BEAR
     else SMA_NONE)"

definition AnalyzeSMASignal ::
  "CSMAStrategy \<Rightarrow> SSMAValues \<Rightarrow> SSMAValues \<Rightarrow> ESMASignalType" where
  "AnalyzeSMASignal s current previous =
    (if \<not> IsValidSMAValues s current \<or> \<not> IsValidSMAValues s previous then SMA_NONE
     else
       (let crossSignal = DetectCrossover current previous
        in if crossSignal \<noteq> SMA_NONE then crossSignal
           else
             (let trendSignal = DetectTrendSignals s current previous
              in if trendSignal \<noteq> SMA_NONE then trendSignal
                 else if mConfiguration s = TRIPLE_MA
                         \<and> DetectTripleMASignals s current previous \<noteq> SMA_NONE
                 then DetectTripleMASignals s current previous
                 else SMA_NONE)))"

definition ShouldGenerateSignal_sma ::
  "CSMAStrategy \<Rightarrow> ESMASignalType \<Rightarrow> time_point \<Rightarrow> bool" where
  "ShouldGenerateSignal_sma s signalType now =
    (if mSignalHistory_sma s \<noteq> []
     then
       (let lastSignal = last (mSignalHistory_sma s);
            timeDiff = duration_cast_minutes (now - mTimestamp_smahist lastSignal)
        in if mType_smahist lastSignal = signalType \<and> timeDiff < 15 then False else True)
     else True)"

text \<open>A triple-MA strategy whose three averages have just become aligned upwards: they
  were 103, 101, 102 at the previous update and are 103, 102.5, 102 now; the fast average
  was above the slow one before, so there is no crossover, the slopes are flat and the
  trend is sideways, so no trend rule matches.\<close>

definition sma_values :: "real \<Rightarrow> real \<Rightarrow> real \<Rightarrow> SSMAValues" where
  "sma_values f sl lg =
    \<lparr> mFastSMA = f, mSlowSMA = sl, mLongSMA = lg, mFastSlope = 0, mSlowSlope = 0,
      mLongSlope = 0, mSpread = f - sl, mSpreadPercent = (f - sl) / sl * 100,
      mTimestamp_sma = 0, mIsValid_sma = True, mPeriodCount_sma = 60 \<rparr>"

definition aligned_sma_strategy :: CSMAStrategy where
  "aligned_sma_strategy =
    \<lparr> mParams_sma =
        \<lparr> mFastPeriod = 10, mSlowPeriod = 20, mLongPeriod = 50, mPositionSize_sma = 1 / 10,
          mStopLossPercent_sma = 2, mTakeProfitPercent_sma = 4, mMinPeriods_sma = 25,
          mUseTripleMA = True, mUseSlopeFilter = True, mMinSlope_param = 1 / 1000,
          mUseVolumeFilter = False, mVolumeThreshold = 3 / 2 \<rparr>,
      mConfiguration = TRIPLE_MA,
      mClosePrices_sma = [104],
      mSignalHistory_sma = [],
      mCurrentSMAValues = sma_values 103 (205 / 2) 102,
      mPreviousSMAValues = sma_values 103 101 102,
      mCurrentTrend = SIDEWAYS,
      mMinSlope = 1 / 1000 \<rparr>"

section \<open>MACD strategy (MACDStrategy.cpp)\<close>

datatype EMACDSignalType =
  MACD_NONE | BULLISH_CROSSOVER | BEARISH_CROSSOVER | ZERO_LINE_CROSS_UP | ZERO_LINE_CROSS_DOWN
| HISTOGRAM_TURN_POSITIVE | HISTOGRAM_TURN_NEGATIVE
| HISTOGRAM_ACCELERATING_UP | HISTOGRAM_ACCELERATING_DOWN
| MOMENTUM_ACCELERATION_UP | MOMENTUM_ACCELERATION_DOWN
| TREND_CONFIRMATION_BULLISH | TREND_CONFIRMATION_BEARISH
| MACD_DIVERGENCE_BULLISH | MACD_DIVERGENCE_BEARISH

text \<open>An entry of the signal history of the MACD strategy, with the members that
  \<^verbatim>\<open>ShouldGenerateSignal\<close> reads and the price and description beside them, and the
  signal history, the one data member of \<^verbatim>\<open>CMACDStrategy\<close> that it reads.\<close>

record SMACDSignalHistory =
  mType_macdhist :: EMACDSignalType
  mPrice_macdhist :: real
  mTimestamp_macdhist :: time_point
  mDescription_macdhist :: string

record CMACDStrategy =
  mSignalHistory_macd :: "SMACDSignalHistory list"

definition ShouldGenerateSignal_macd ::
  "CMACDStrategy \<Rightarrow> EMACDSignalType \<Rightarrow> time_point \<Rightarrow> bool" where
  "ShouldGenerateSignal_macd s signalType now =
    (if mSignalHistory_macd s \<noteq> []
     then
       (let lastSignal = last (mSignalHistory_macd s);
            timeDiff = duration_cast_minutes (now - mTimestamp_macdhist lastSignal)
        in if mType_macdhist lastSignal = signalType \<and> timeDiff < 5 then False else True)
     else True)"

section \<open>Backtester (BackTester.h, BackTester.cpp)\<close>

subsection \<open>Reading numbers and fields\<close>

text \<open>\<^verbatim>\<open>std::stoll\<close> and \<^verbatim>\<open>std::stod\<close> belong to the C++ library, not to the repository.
  They are modelled for decimal notation: leading white space, an optional sign, digits
  (for \<^verbatim>\<open>stod\<close> with an optional fraction and an optional decimal exponent), and
  whatever follows is ignored, as the library does. Without a digit they throw
  \<^verbatim>\<open>invalid_argument\<close>; \<^verbatim>\<open>stoll\<close> throws \<^verbatim>\<open>out_of_range\<close> outside 64 bits.
  Hexadecimal floats, infinities and NaN, which \<^verbatim>\<open>stod\<close> reads too, are outside the
  model.\<close>

definition isspace :: "char \<Rightarrow> bool" where
  "isspace c \<longleftrightarrow> c \<in> {CHR '' '', CHR 0x09, CHR 0x0A, CHR 0x0B, CHR 0x0C, CHR 0x0D}"

definition isdigit :: "char \<Rightarrow> bool" where
  "isdigit c \<longleftrightarrow> (48::nat) \<le> of_char c \<and> of_char c \<le> (57::nat)"

definition digits_value :: "string \<Rightarrow> nat" where
  "digits_value ds = foldl (\<lambda>v c. 10 * v + (of_char c - 48)) 0 ds"

text \<open>An optional sign in front of a string: whether it is a minus, and the rest.\<close>

fun read_sign :: "string \<Rightarrow> bool \<times> string" where
  "read_sign [] = (False, [])"
| "read_sign (c # cs) =
     (if c = CHR ''-'' then (True, cs) else if c = CHR ''+'' then (False, cs) else (False, c # cs))"

definition stoll :: "string \<Rightarrow> exn + int" where
  "stoll str =
    (let (neg, rest) = read_sign (dropWhile isspace str);
         ds = takeWhile isdigit rest
     in if ds = [] then Inl (invalid_argument ''stoll'')
        else
          (let v = (if neg then - int (digits_value ds) else int (digits_value ds))
           in if v < - (2 ^ 63) \<or> v > 2 ^ 63 - 1 then Inl (out_of_range ''stoll'')
              else Inr v))"

definition stod :: "string \<Rightarrow> exn + real" where
  "stod str =
    (let (neg, rest) = read_sign (dropWhile isspace str);
         ip = takeWhile isdigit rest;
         rest1 = dropWhile isdigit rest;
         fp = (case rest1 of c # cs \<Rightarrow> if c = CHR ''.'' then takeWhile isdigit cs else []
               | [] \<Rightarrow> []);
         rest2 = (case rest1 of c # cs \<Rightarrow> if c = CHR ''.'' then dropWhile isdigit cs else rest1
                  | [] \<Rightarrow> []);
         ex = (case rest2 of
                 c # cs \<Rightarrow>
                   if c = CHR ''e'' \<or> c = CHR ''E''
                   then (let (eneg, erest) = read_sign cs;
                             eds = takeWhile isdigit erest
                         in if eds = [] then 0
                            else if eneg then - int (digits_value eds)
                            else int (digits_value eds))
                   else 0
               | [] \<Rightarrow> 0)
     in if ip = [] \<and> fp = [] then Inl (invalid_argument ''stod'')
        else
          (let m = real (digits_value ip) + real (digits_value fp) / 10 ^ length fp;
               v = (if ex < 0 then m / 10 ^ nat (- ex) else m * 10 ^ nat ex)
           in Inr (if neg then - v else v)))"

text \<open>The items that \<^verbatim>\<open>while (std::getline(ss, item, ','))\<close> reads from a line: the
  pieces between commas; nothing after a final comma, and nothing at all in an empty
  line.\<close>

function getline_items :: "string \<Rightarrow> string list" where
  "getline_items line =
    (if line = [] then []
     else
       (let item = takeWhile (\<lambda>c. c \<noteq> CHR '','') line;
            rest = dropWhile (\<lambda>c. c \<noteq> CHR '','') line
        in if rest = [] then [item] else item # getline_items (tl rest)))"
  by pat_completeness auto
termination
proof (relation "measure length")
  show "wf (measure length)" by simp
next
  fix line :: string and item rest
  assume "line \<noteq> []" and "rest = dropWhile (\<lambda>c. c \<noteq> CHR '','') line" and "rest \<noteq> []"
  then have "length (tl rest) < length rest" and "length rest \<le> length line"
    by (simp_all add: length_dropWhile_le)
  then show "(tl rest, line) \<in> measure length" by simp
qed

declare getline_items.simps [simp del]

text \<open>The \<^verbatim>\<open>switch\<close> on the number of the field, for the items of one line. A number that
  cannot be read throws. The candle is returned with the number of items read.\<close>

fun read_fields :: "string list \<Rightarrow> nat \<Rightarrow> SKline \<Rightarrow> exn + (SKline \<times> nat)" where
  "read_fields [] field kline = Inr (kline, field)"
| "read_fields (item # items) field kline =
    (if field = 0 then
       (case stoll item of Inl e \<Rightarrow> Inl e
        | Inr v \<Rightarrow> read_fields items (field + 1) (kline\<lparr> mOpenTime := v \<rparr>))
     else if field = 1 then
       (case stod item of Inl e \<Rightarrow> Inl e
        | Inr v \<Rightarrow> read_fields items (field + 1) (kline\<lparr> mOpen := v \<rparr>))
     else if field = 2 then
       (case stod item of Inl e \<Rightarrow> Inl e
        | Inr v \<Rightarrow> read_fields items (field + 1) (kline\<lparr> mHigh := v \<rparr>))
     else if field = 3 then
       (case stod item of Inl e \<Rightarrow> Inl e
        | Inr v \<Rightarrow> read_fields items (field + 1) (kline\<lparr> mLow := v \<rparr>))
     else if field = 4 then
       (case stod item of Inl e \<Rightarrow> Inl e
        | Inr v \<Rightarrow> read_fields items (field + 1) (kline\<lparr> mClose := v \<rparr>))
     else if field = 5 then
       (case stod item of Inl e \<Rightarrow> Inl e
        | Inr v \<Rightarrow> read_fields items (field + 1) (kline\<lparr> mVolume := v \<rparr>))
     else if field = 6 then
       (case stoll item of Inl e \<Rightarrow> Inl e
        | Inr v \<Rightarrow> read_fields items (field + 1) (kline\<lparr> mCloseTime := v \<rparr>))
     else read_fields items (field + 1) kline)"

text \<open>The candle \<^verbatim>\<open>API::SKline kline;\<close> of the loop before its fields are assigned. Its
  values are not determined in C++; the model takes zeros. A candle is stored only when
  all seven fields were assigned.\<close>

definition SKline_unassigned :: SKline where
  "SKline_unassigned =
    \<lparr> mOpenTime = 0, mOpen = 0, mHigh = 0, mLow = 0, mClose = 0, mVolume = 0, mCloseTime = 0 \<rparr>"

text \<open>The loop over the lines after the header: the exception that ended it, if any, and
  the candles stored.\<close>

fun read_lines :: "string list \<Rightarrow> SKline list \<Rightarrow> exn option \<times> SKline list" where
  "read_lines [] data = (None, data)"
| "read_lines (line # lines) data =
    (case read_fields (getline_items line) 0 SKline_unassigned of
       Inl e \<Rightarrow> (Some e, data)
     | Inr (kline, field) \<Rightarrow>
         read_lines lines (if field \<ge> 7 then data @ [kline] else data))"

subsection \<open>Loading\<close>

text \<open>The exchange API for one run of the loader: whether it is initialised, and the answers
  of its successive calls of \<^verbatim>\<open>GetKlines\<close>, each a vector of candles or an exception.\<close>

record IExchangeAPI =
  IsInitialized :: bool
  GetKlines_answers :: "(exn + SKline list) list"

text \<open>The data members of \<^verbatim>\<open>CBackTester\<close> that the two loaders read or write; a null
  \<^verbatim>\<open>mExchangeAPI\<close> is \<^const>\<open>None\<close>.\<close>

record CBackTester =
  mTimeframe :: string
  mPair :: string
  mStartTimestamp :: int
  mEndTimestamp :: int
  mExchangeAPI :: "IExchangeAPI option"
  mHistoricalData :: "SKline list"

text \<open>\<^verbatim>\<open>LoadHistoricalData(csvFile)\<close>. The file is \<^const>\<open>None\<close> when it cannot be opened,
  and its lines otherwise. The candles are stored in the order of the lines.\<close>

definition LoadHistoricalData ::
  "CBackTester \<Rightarrow> string \<Rightarrow> string list option \<Rightarrow> exn option \<times> CBackTester" where
  "LoadHistoricalData s csvFile file =
    (case file of
       None \<Rightarrow> (Some (runtime_error (''Failed to open CSV file: '' @ csvFile)), s)
     | Some lines \<Rightarrow>
         (let s1 = s\<lparr> mHistoricalData := [] \<rparr>
          in case lines of
               [] \<Rightarrow> (None, s1)
             | header # rows \<Rightarrow>
                 (let (e, data) = read_lines rows (mHistoricalData s1)
                  in (e, s1\<lparr> mHistoricalData := data \<rparr>))))"

text \<open>The loop \<^verbatim>\<open>while (currentTime < endTime)\<close> of \<^verbatim>\<open>LoadHistoricalDataFromAPI\<close>, by
  recursion on the answers of the API. An exception or an empty answer leaves the loop.
  When the answers are used up and the loop would call again, the result is
  \<^const>\<open>None\<close>: the loop has not ended.\<close>

fun fetch_loop ::
  "(exn + SKline list) list \<Rightarrow> int \<Rightarrow> int \<Rightarrow> int \<Rightarrow> SKline list \<Rightarrow> SKline list option" where
  "fetch_loop [] currentTime startTime endTime data =
     (if currentTime < endTime then None else Some data)"
| "fetch_loop (answer # answers) currentTime startTime endTime data =
     (if currentTime < endTime
      then
        (case answer of
           Inl e \<Rightarrow> Some data
         | Inr klines \<Rightarrow>
             if klines = [] then Some data
             else fetch_loop answers (mCloseTime (last klines) + 1) startTime endTime
                    (data @ filter (\<lambda>kline. mOpenTime kline \<ge> startTime
                                            \<and> mOpenTime kline \<le> endTime) klines))
      else Some data)"

text \<open>\<^verbatim>\<open>LoadHistoricalDataFromAPI\<close>; \<^verbatim>\<open>std::sort\<close> by open time is a sort by that key
  (the order it leaves between candles of equal open time is not specified; the model keeps
  theirs). The result is \<^const>\<open>None\<close> when the loop does not end.\<close>

definition LoadHistoricalDataFromAPI :: "CBackTester \<Rightarrow> (exn option \<times> CBackTester) option" where
  "LoadHistoricalDataFromAPI s =
    (case mExchangeAPI s of
       None \<Rightarrow> Some (Some (runtime_error ''Exchange API not initialized''), s)
     | Some api \<Rightarrow>
         if \<not> IsInitialized api
         then Some (Some (runtime_error ''Exchange API not initialized''), s)
         else
           (let startTime = mStartTimestamp s * 1000;
                endTime = mEndTimestamp s * 1000;
                s1 = s\<lparr> mHistoricalData := [] \<rparr>
            in case fetch_loop (GetKlines_answers api) startTime startTime endTime
                      (mHistoricalData s1) of
                 None \<Rightarrow> None
               | Some data \<Rightarrow> Some (None, s1\<lparr> mHistoricalData := sort_key mOpenTime data \<rparr>)))"

text \<open>A backtester as its constructor leaves it (the end of the range is the time of the
  construction, in seconds), and a CSV file of a header and two candles, the later one
  first.\<close>

definition CBackTester_ctor :: "int \<Rightarrow> CBackTester" where
  "CBackTester_ctor now_seconds =
    \<lparr> mTimeframe = ''1h'', mPair = ''BTCUSDT'', mStartTimestamp = 0,
      mEndTimestamp = now_seconds, mExchangeAPI = None, mHistoricalData = [] \<rparr>"

definition unsorted_csv :: "string list" where
  "unsorted_csv =
    [''open_time,open,high,low,close,volume,close_time'',
     ''2000,101.5,102,101,101.5,7,2999'',
     ''1000,100,101,99.5,100.5,3,1999'']"

section \<open>Strategy Engine (StrategyEngine.h, StrategyEngine.cpp)\<close>

datatype EStrategyState = INACTIVE | ACTIVE | PAUSED | ERROR | STOPPED

text \<open>A strategy as the engine holds it, behind \<^verbatim>\<open>std::shared_ptr<IStrategy>\<close>: the state
  of the object, of any type, and the two virtual functions that \<^verbatim>\<open>ExecuteStrategy\<close>
  calls. \<^verbatim>\<open>Update\<close> returns a signal or throws, and changes the object;
  \<^verbatim>\<open>ValidateSignal\<close> is \<^verbatim>\<open>const\<close> and returns a truth value or throws.\<close>

record 'st IStrategy =
  strategy_object :: 'st
  virtual_Update :: "'st \<Rightarrow> SKline list \<Rightarrow> STicker \<Rightarrow> (exn + SSignal) \<times> 'st"
  virtual_ValidateSignal :: "'st \<Rightarrow> SSignal \<Rightarrow> exn + bool"

text \<open>The data members of \<^verbatim>\<open>CStrategyEngine\<close> that \<^verbatim>\<open>ExecuteStrategy\<close> reads or
  writes. The callbacks are code of the caller: the model records the calls of
  \<^verbatim>\<open>NotifyStrategySignal\<close> and of \<^verbatim>\<open>NotifyError\<close>, in order, in place of running
  them.\<close>

record 'st CStrategyEngine =
  mStrategies :: "(string \<times> 'st IStrategy) list"
  mStrategyStates :: "(string \<times> EStrategyState) list"
  notified_signals :: "(string \<times> SSignal) list"
  notified_errors :: "(string \<times> string) list"

definition NotifyStrategySignal ::
  "'st CStrategyEngine \<Rightarrow> string \<Rightarrow> SSignal \<Rightarrow> 'st CStrategyEngine" where
  "NotifyStrategySignal e strategyName signal =
     e\<lparr> notified_signals := notified_signals e @ [(strategyName, signal)] \<rparr>"

definition NotifyError :: "'st CStrategyEngine \<Rightarrow> string \<Rightarrow> string \<Rightarrow> 'st CStrategyEngine" where
  "NotifyError e strategyName error =
     e\<lparr> notified_errors := notified_errors e @ [(strategyName, error)] \<rparr>"

definition ValidateStrategy :: "'st CStrategyEngine \<Rightarrow> string \<Rightarrow> bool" where
  "ValidateStrategy e strategyName =
    (case map_of (mStrategies e) strategyName of
       None \<Rightarrow> False
     | Some strategy \<Rightarrow>
         (case map_of (mStrategyStates e) strategyName of
            None \<Rightarrow> False
          | Some state \<Rightarrow> state = ACTIVE))"

text \<open>The \<^verbatim>\<open>catch (const std::exception& e)\<close> block of \<^verbatim>\<open>ExecuteStrategy\<close>.\<close>

definition ExecuteStrategy_catch ::
  "'st CStrategyEngine \<Rightarrow> string \<Rightarrow> exn \<Rightarrow> time_point \<Rightarrow> SSignal \<times> 'st CStrategyEngine" where
  "ExecuteStrategy_catch e strategyName ex now =
    (let e1 = e\<lparr> mStrategyStates := AList.update strategyName ERROR (mStrategyStates e) \<rparr>;
         e2 = NotifyError e1 strategyName (''Strategy execution failed: '' @ what ex);
         errorSignal = SSignal_default\<lparr> mType_signal := HOLD,
                         mStrategyName_signal := strategyName,
                         mMessage := ''Execution error: '' @ what ex,
                         mTimestamp_signal := now \<rparr>
     in (errorSignal, e2))"

text \<open>\<^verbatim>\<open>ExecuteStrategy\<close>. The result is the exception that leaves the function, or the
  signal it returns, beside the engine after the call. The strategy is shared with the
  registry, so what \<^verbatim>\<open>Update\<close> does to the object is seen in \<^verbatim>\<open>mStrategies\<close>. \<open>now\<close> is
  the clock where the returned signal is stamped.\<close>

definition ExecuteStrategy ::
  "'st CStrategyEngine \<Rightarrow> string \<Rightarrow> SKline list \<Rightarrow> STicker \<Rightarrow> time_point
     \<Rightarrow> (exn + SSignal) \<times> 'st CStrategyEngine" where
  "ExecuteStrategy e strategyName klines ticker now =
    (case map_of (mStrategies e) strategyName of
       None \<Rightarrow>
         (Inl (runtime_error (''Strategy with name '' @ [CHR 0x27] @ strategyName @ [CHR 0x27]
                              @ '' not found'')), e)
     | Some strategy \<Rightarrow>
         (let state = (case map_of (mStrategyStates e) strategyName of
                         Some st \<Rightarrow> st | None \<Rightarrow> INACTIVE)
          in if state \<noteq> ACTIVE
             then (Inr (SSignal_default\<lparr> mType_signal := HOLD,
                          mStrategyName_signal := strategyName,
                          mMessage := ''Strategy is not active'',
                          mTimestamp_signal := now \<rparr>), e)
             else
               (let (r, object') = virtual_Update strategy (strategy_object strategy) klines ticker;
                    e1 = e\<lparr> mStrategies :=
                             AList.update strategyName (strategy\<lparr> strategy_object := object' \<rparr>)
                               (mStrategies e) \<rparr>
                in case r of
                     Inl ex \<Rightarrow>
                       (let (errorSignal, e2) = ExecuteStrategy_catch e1 strategyName ex now
                        in (Inr errorSignal, e2))
                   | Inr signal \<Rightarrow>
                       (case (if \<not> ValidateStrategy e1 strategyName then Inr False
                              else virtual_ValidateSignal strategy object' signal) of
                          Inl ex \<Rightarrow>
                            (let (errorSignal, e2) = ExecuteStrategy_catch e1 strategyName ex now
                             in (Inr errorSignal, e2))
                        | Inr valid \<Rightarrow>
                            (let signal1 = (if \<not> valid
                                            then signal\<lparr> mType_signal := HOLD,
                                                   mMessage := ''Signal validation failed'' \<rparr>
                                            else signal);
                                 signal2 = signal1\<lparr> mStrategyName_signal := strategyName,
                                             mTimestamp_signal := now \<rparr>;
                                 e2 = NotifyStrategySignal e1 strategyName signal2
                             in (Inr signal2, e2))))))"

text \<open>Three engines with one registered strategy each, whose object counts the calls of
  \<^verbatim>\<open>Update\<close>: a paused strategy; an active one whose \<^verbatim>\<open>Update\<close> returns a BUY signal that
  its \<^verbatim>\<open>ValidateSignal\<close> refuses; an active one whose \<^verbatim>\<open>Update\<close> throws.\<close>

definition buying_strategy :: "nat IStrategy" where
  "buying_strategy =
    \<lparr> strategy_object = 0,
      virtual_Update = (\<lambda>n klines ticker.
         (Inr (SSignal_default\<lparr> mType_signal := SIG_BUY, mMessage := ''Buy Oversold'' \<rparr>), n + 1)),
      virtual_ValidateSignal = (\<lambda>n signal. Inr False) \<rparr>"

definition throwing_strategy :: "nat IStrategy" where
  "throwing_strategy =
    \<lparr> strategy_object = 0,
      virtual_Update = (\<lambda>n klines ticker. (Inl (runtime_error ''no data''), n + 1)),
      virtual_ValidateSignal = (\<lambda>n signal. Inr True) \<rparr>"

definition engine_with :: "nat IStrategy \<Rightarrow> EStrategyState \<Rightarrow> nat CStrategyEngine" where
  "engine_with strategy state =
    \<lparr> mStrategies = [(''RSI Strategy'', strategy)],
      mStrategyStates = [(''RSI Strategy'', state)],
      notified_signals = [], notified_errors = [] \<rparr>"

section \<open>Properties of the Risk Manager\<close>

subsection \<open>Double arithmetic\<close>

text \<open>The exponent that \<^const>\<open>floor_log2\<close> computes is the binary exponent, a rounded
  value is within half a spacing of the exact one, a number with a significand of at most 53
  bits (and an exponent in the range of the doubles) is left as it is, and the rounding
  gives the doubles that the literals \<^verbatim>\<open>0.1\<close> and \<^verbatim>\<open>0.2\<close> and the sum \<^verbatim>\<open>0.1 + 0.2\<close> are known to be
  (\<^verbatim>\<open>0x1.999999999999ap-4\<close>, \<^verbatim>\<open>0x1.999999999999ap-3\<close> and \<^verbatim>\<open>0x1.3333333333334p-2\<close>,
  which prints as \<^verbatim>\<open>0.30000000000000004\<close>).\<close>

lemma pow2_nonneg: "0 \<le> k \<Longrightarrow> pow2 k = 2 ^ nat k"
  by (simp add: pow2_def)

lemma pow2_neg: "k \<le> 0 \<Longrightarrow> pow2 k = 1 / 2 ^ nat (- k)"
  by (simp add: pow2_def)

lemma pow2_pos: "0 < pow2 k"
  by (simp add: pow2_def)

lemma floor_log2_bounds:
  assumes "0 < x"
  shows "pow2 (floor_log2 x) \<le> x \<and> x < pow2 (floor_log2 x + 1)"
proof (cases "1 \<le> x")
  case True
  define n where "n = \<lfloor>x\<rfloor>"
  have n: "1 \<le> n" "of_int n \<le> x" "x < of_int n + 1"
    using True by (simp_all add: n_def le_floor_iff)
  then have "0 < n" by simp
  from bitlen_bounds [OF this]
  have b: "2 ^ nat (bitlen n - 1) \<le> n" "n < 2 ^ nat (bitlen n)" by simp_all
  have k: "1 \<le> bitlen n"
    using \<open>0 < n\<close> by (simp add: bitlen_alt_def)
  have e: "floor_log2 x = bitlen n - 1"
    using True by (simp add: floor_log2_def n_def)
  have "(2::real) ^ nat (bitlen n - 1) \<le> real_of_int n"
    using b(1) by simp
  then have "(2::real) ^ nat (bitlen n - 1) \<le> x"
    using n(2) by linarith
  then have lo: "pow2 (bitlen n - 1) \<le> x"
    using k by (simp add: pow2_nonneg)
  have "n + 1 \<le> 2 ^ nat (bitlen n)" using b(2) by simp
  then have "real_of_int (n + 1) \<le> real_of_int (2 ^ nat (bitlen n))"
    by (simp only: of_int_le_iff)
  then have "real_of_int n + 1 \<le> 2 ^ nat (bitlen n)"
    by simp
  then have "x < 2 ^ nat (bitlen n)"
    using n(3) by linarith
  then have hi: "x < pow2 (bitlen n - 1 + 1)"
    using k by (simp add: pow2_nonneg)
  show ?thesis using lo hi by (simp add: e)
next
  case False
  define y where "y = 1 / x"
  define m where "m = \<lceil>y\<rceil> - 1"
  have y: "1 < y" using False assms by (simp add: y_def)
  have m: "of_int m < y" "y \<le> of_int m + 1"
    unfolding m_def by linarith+
  have "0 < m" using y m(2) by linarith
  from bitlen_bounds [OF this]
  have b: "2 ^ nat (bitlen m - 1) \<le> m" "m < 2 ^ nat (bitlen m)" by simp_all
  have k: "1 \<le> bitlen m"
    using \<open>0 < m\<close> by (simp add: bitlen_alt_def)
  have e: "floor_log2 x = - bitlen m"
    using False by (simp add: floor_log2_def m_def y_def)
  have x: "x = 1 / y" by (simp add: y_def)
  have "m + 1 \<le> 2 ^ nat (bitlen m)" using b(2) by simp
  then have "real_of_int (m + 1) \<le> real_of_int (2 ^ nat (bitlen m))"
    by (simp only: of_int_le_iff)
  then have "real_of_int m + 1 \<le> 2 ^ nat (bitlen m)"
    by simp
  then have "y \<le> 2 ^ nat (bitlen m)" using m(2) by linarith
  then have "1 / 2 ^ nat (bitlen m) \<le> 1 / y"
    using y by (intro divide_left_mono) simp_all
  then have lo: "pow2 (- bitlen m) \<le> x"
    using k by (simp add: pow2_neg x)
  have "(2::real) ^ nat (bitlen m - 1) \<le> real_of_int m"
    using b(1) by simp
  then have "2 ^ nat (bitlen m - 1) < y" using m(1) by linarith
  then have "1 / y < 1 / 2 ^ nat (bitlen m - 1)"
    using y by (intro divide_strict_left_mono) simp_all
  then have hi: "x < pow2 (- bitlen m + 1)"
    using k by (simp add: pow2_neg x)
  show ?thesis using lo hi by (simp add: e)
qed

lemma round_half_even_error: "\<bar>of_int (round_half_even y) - y\<bar> \<le> 1 / 2"
  unfolding round_half_even_def Let_def by (auto simp: abs_if) linarith+

lemma round64_error:
  "\<bar>round64 x - x\<bar> \<le> pow2 (max (floor_log2 \<bar>x\<bar>) (- 1022) - 52) / 2"
proof (cases "x = 0")
  case True
  then show ?thesis
    using pow2_pos [of "max (floor_log2 \<bar>x\<bar>) (- 1022) - 52"] by (simp add: round64_def)
next
  case False
  define u where "u = pow2 (max (floor_log2 \<bar>x\<bar>) (- 1022) - 52)"
  have u: "0 < u" by (simp add: u_def pow2_pos)
  have r: "round64 x = of_int (round_half_even (x / u)) * u"
    using False by (simp add: round64_def Let_def u_def)
  have "of_int (round_half_even (x / u)) * u - x = (of_int (round_half_even (x / u)) - x / u) * u"
    using u by (simp add: left_diff_distrib)
  then have "\<bar>of_int (round_half_even (x / u)) * u - x\<bar>
               = \<bar>of_int (round_half_even (x / u)) - x / u\<bar> * u"
    using u by (simp add: abs_mult)
  also have "\<dots> \<le> 1 / 2 * u"
    using u round_half_even_error [of "x / u"] by (intro mult_right_mono) simp_all
  finally show ?thesis by (simp add: r u_def)
qed

lemma pow2_power_int: "pow2 k = power_int 2 k"
  by (simp add: pow2_def power_int_def field_simps)

lemma pow2_add: "pow2 (a + b) = pow2 a * pow2 b"
  by (simp add: pow2_power_int power_int_add)

lemma pow2_less_cancel: "pow2 a < pow2 b \<Longrightarrow> a < b"
  using power_int_increasing [of b a "2::real"] by (fastforce simp: pow2_power_int)

lemma round_half_even_of_int: "round_half_even (of_int j) = j"
  by (simp add: round_half_even_def)

lemma round64_representable:
  assumes m: "\<bar>m\<bar> < 2 ^ 53" and k: "- 1074 \<le> k"
  shows "round64 (of_int m * pow2 k) = of_int m * pow2 k"
proof (cases "m = 0")
  case True
  then show ?thesis by (simp add: round64_def)
next
  case False
  define x where "x = real_of_int m * pow2 k"
  define e where "e = max (floor_log2 \<bar>x\<bar>) (- 1022)"
  have x0: "x \<noteq> 0" using False pow2_pos [of k] by (simp add: x_def)
  have ek: "e - 52 \<le> k"
  proof (cases "floor_log2 \<bar>x\<bar> \<le> - 1022")
    case True
    then show ?thesis using k by (simp add: e_def)
  next
    case False
    then have e: "e = floor_log2 \<bar>x\<bar>" by (simp add: e_def)
    have "pow2 e \<le> \<bar>x\<bar>"
      using floor_log2_bounds [of "\<bar>x\<bar>"] x0 by (simp add: e)
    also have "\<bar>x\<bar> = real_of_int \<bar>m\<bar> * pow2 k"
      using pow2_pos [of k] by (simp add: x_def abs_mult)
    also have "\<dots> < 2 ^ 53 * pow2 k"
    proof -
      have "real_of_int \<bar>m\<bar> < real_of_int (2 ^ 53)"
        using m by (simp only: of_int_less_iff)
      then show ?thesis using pow2_pos [of k] by simp
    qed
    also have "\<dots> = pow2 (53 + k)"
    proof -
      have "(2::real) ^ 53 = pow2 53" by (simp add: pow2_def)
      then show ?thesis by (simp only: pow2_add)
    qed
    finally have "e < 53 + k" by (rule pow2_less_cancel)
    then show ?thesis by simp
  qed
  define d where "d = nat (k - (e - 52))"
  have "pow2 k = pow2 (int d + (e - 52))"
    using ek by (simp add: d_def)
  also have "\<dots> = 2 ^ d * pow2 (e - 52)"
  proof -
    have "pow2 (int d) = 2 ^ d" by (simp add: pow2_def)
    then show ?thesis by (simp only: pow2_add)
  qed
  finally have pk: "pow2 k = 2 ^ d * pow2 (e - 52)" .
  have "x / pow2 (e - 52) = real_of_int (m * 2 ^ d)"
    using pow2_pos [of "e - 52"] by (simp add: x_def pk)
  then have "round_half_even (x / pow2 (e - 52)) = m * 2 ^ d"
    by (simp only: round_half_even_of_int)
  then have "round64 x = real_of_int (m * 2 ^ d) * pow2 (e - 52)"
    using x0 by (simp add: round64_def Let_def e_def)
  then show ?thesis
    by (simp add: x_def pk)
qed

lemma unrounded_representable:
  assumes "\<bar>m\<bar> < 2 ^ 53" and "- 1074 \<le> k" and "\<bar>of_int m * pow2 k\<bar> \<le> DBL_MAX"
  shows "unrounded (of_int m * pow2 k)"
  using assms by (simp add: unrounded_def round64_representable)

lemma unrounded_round64: "unrounded x \<Longrightarrow> round64 x = x"
  by (simp add: unrounded_def)

lemma unrounded_integers:
  "unrounded 0" "unrounded 200" "unrounded 1500" "unrounded 1700"
  using unrounded_representable [of 0 0] unrounded_representable [of 200 0]
    unrounded_representable [of 1500 0] unrounded_representable [of 1700 0]
  by (simp_all add: pow2_def DBL_MAX_def)

lemma round64_decimals:
  "round64 (1 / 10) = 3602879701896397 / 2 ^ 55"
  "round64 (1 / 5) = 3602879701896397 / 2 ^ 54"
  "round64 (3602879701896397 / 2 ^ 55 + 3602879701896397 / 2 ^ 54) = 1351079888211149 / 2 ^ 52"
  by code_simp+

text \<open>A tie goes to the even significand, upwards or downwards, and the sign does not
  matter.\<close>

lemma round64_ties:
  "round64 (2 ^ 53 + 1) = 2 ^ 53"
  "round64 (2 ^ 53 + 3) = 2 ^ 53 + 4"
  "round64 (- (2 ^ 53 + 1)) = - (2 ^ 53)"
  by code_simp+

lemma round64_doubles:
  "round64 (3602879701896397 / 2 ^ 55) = 3602879701896397 / 2 ^ 55"
  "round64 (3602879701896397 / 2 ^ 54) = 3602879701896397 / 2 ^ 54"
  "round64 (7205759403792795 / 2 ^ 55) = 7205759403792795 / 2 ^ 55"
  "round64 0 = 0"
  using round64_representable [of 3602879701896397 "- 55"]
    round64_representable [of 3602879701896397 "- 54"]
    round64_representable [of 7205759403792795 "- 55"]
  by (simp_all add: pow2_def round64_def [of 0])

subsection \<open>The pre-trade gate and the alerts\<close>

lemma CheckPositionAllowed_frame:
  "mSymbolExposure (snd (CheckPositionAllowed s symbol side q p n1 n2)) = mSymbolExposure s"
  "mTotalExposure (snd (CheckPositionAllowed s symbol side q p n1 n2)) = mTotalExposure s"
  "mActiveAlerts (snd (CheckPositionAllowed s symbol side q p n1 n2)) = mActiveAlerts s"
  "mOpenPositions (snd (CheckPositionAllowed s symbol side q p n1 n2)) = mOpenPositions s"
  "mMaxSymbolExposure (snd (CheckPositionAllowed s symbol side q p n1 n2)) = mMaxSymbolExposure s"
  by (simp_all add: CheckPositionAllowed_def CheckMaxDailyLoss_def Let_def)

lemma scenario_risk_state_exposure:
  "mSymbolExposure scenario_risk_state = [(''BTCUSDT'', 1500)]"
  "mMaxSymbolExposure scenario_risk_state = 20"
  "mActiveAlerts scenario_risk_state = []"
  by (simp_all add: scenario_risk_state_def scenario_position_def RegisterPosition_def
        CRiskManager_ctor_def Let_def fadd_def fmul_def unrounded_integers [THEN unrounded_round64])

text \<open>
  C1, as the specification states it, fails. In the state of scenario 4 (balance 10000,
  20 per cent per symbol, exposure 1500 on BTCUSDT) the request to buy 0.1 BTCUSDT at 6000
  is refused, but the list of active alerts is empty after the call: no
  \<^verbatim>\<open>SYMBOL_EXPOSURE_LIMIT\<close> alert is recorded.
\<close>

theorem CheckPositionAllowed_records_no_alert:
  "GetSymbolExposure scenario_risk_state ''BTCUSDT'' = 1500 \<and>
   fst (CheckPositionAllowed scenario_risk_state ''BTCUSDT'' BUY (1 / 10) 6000
          (120 * ticks_per_second) (120 * ticks_per_second)) = False \<and>
   mActiveAlerts (snd (CheckPositionAllowed scenario_risk_state ''BTCUSDT'' BUY (1 / 10) 6000
          (120 * ticks_per_second) (120 * ticks_per_second))) = []"
proof -
  have "\<not> CheckSymbolExposure s ''BTCUSDT'' ((1 / 10) * 6000)"
    if "mSymbolExposure s = [(''BTCUSDT'', 1500)]" "mMaxSymbolExposure s = 20" for s
    using that by (simp add: CheckSymbolExposure_def)
  then have "fst (CheckPositionAllowed scenario_risk_state ''BTCUSDT'' BUY (1 / 10) 6000
          (120 * ticks_per_second) (120 * ticks_per_second)) = False"
    by (simp add: CheckPositionAllowed_def CheckMaxDailyLoss_def Let_def
          scenario_risk_state_exposure)
  then show ?thesis
    by (simp add: GetSymbolExposure_def CheckPositionAllowed_frame scenario_risk_state_exposure)
qed

text \<open>
  C1, amended. With 20 per cent per symbol and an exposure of 1500 on the symbol, a request
  for 0.1 at 6000 is refused by \<^verbatim>\<open>CheckPositionAllowed\<close>, whatever the rest of the state
  and the clock are, and the call leaves the list of active alerts as it was: the gate
  records no alert.
\<close>

theorem CheckPositionAllowed_symbol_exposure_refused:
  assumes "mMaxSymbolExposure s = 20" and "GetSymbolExposure s symbol = 1500"
  shows "fst (CheckPositionAllowed s symbol side (1 / 10) 6000 n1 n2) = False \<and>
         mActiveAlerts (snd (CheckPositionAllowed s symbol side (1 / 10) 6000 n1 n2))
           = mActiveAlerts s"
proof -
  have "\<not> CheckSymbolExposure s' symbol ((1 / 10) * 6000)"
    if "mSymbolExposure s' = mSymbolExposure s" "mMaxSymbolExposure s' = mMaxSymbolExposure s"
    for s'
    using that assms by (simp add: CheckSymbolExposure_def GetSymbolExposure_def)
  then have "fst (CheckPositionAllowed s symbol side (1 / 10) 6000 n1 n2) = False"
    by (simp add: CheckPositionAllowed_def CheckMaxDailyLoss_def Let_def)
  then show ?thesis
    by (simp add: CheckPositionAllowed_frame)
qed

theorem CheckPositionAllowed_symbol_exposure_refused_witness:
  "mMaxSymbolExposure scenario_risk_state = 20 \<and>
   GetSymbolExposure scenario_risk_state ''BTCUSDT'' = 1500 \<and>
   fst (CheckPositionAllowed scenario_risk_state ''BTCUSDT'' BUY (1 / 10) 6000 0 0) = False \<and>
   mActiveAlerts (snd (CheckPositionAllowed scenario_risk_state ''BTCUSDT'' BUY (1 / 10) 6000 0 0))
     = mActiveAlerts scenario_risk_state"
proof -
  have a: "mMaxSymbolExposure scenario_risk_state = 20"
    by (simp add: scenario_risk_state_exposure)
  have b: "GetSymbolExposure scenario_risk_state ''BTCUSDT'' = 1500"
    by (simp add: GetSymbolExposure_def scenario_risk_state_exposure)
  from CheckPositionAllowed_symbol_exposure_refused [OF a b, of BUY 0 0] a b
  show ?thesis by simp
qed

subsection \<open>Exposure accounting\<close>

lemma sum_list_snd_update:
  "sum_list (map snd (AList.update k v m)) =
     sum_list (map snd m) - (case map_of m k of None \<Rightarrow> 0 | Some x \<Rightarrow> x) + (v::real)"
  by (induction m) auto

lemma RegisterPosition_sum:
  assumes "unrounded_step s (CallRegisterPosition p now)"
    and "SumSymbolExposure s = mTotalExposure s"
  shows "SumSymbolExposure (snd (RegisterPosition s p now))
           = mTotalExposure (snd (RegisterPosition s p now))"
proof (cases "mId p = []")
  case True
  then show ?thesis using assms(2) by (simp add: RegisterPosition_def)
next
  case False
  with assms(1) have
    "fmul (mQuantity p) (mEntryPrice p) = mQuantity p * mEntryPrice p"
    "fadd (GetSymbolExposure s (mSymbol p)) (mQuantity p * mEntryPrice p)
       = GetSymbolExposure s (mSymbol p) + mQuantity p * mEntryPrice p"
    "fadd (mTotalExposure s) (mQuantity p * mEntryPrice p)
       = mTotalExposure s + mQuantity p * mEntryPrice p"
    by (simp_all add: unrounded_def fmul_def fadd_def)
  then show ?thesis
    using False assms(2)
    by (simp add: RegisterPosition_def SumSymbolExposure_def GetSymbolExposure_def
          sum_list_snd_update Let_def split: option.splits)
qed

lemma ClosePosition_sum:
  assumes "unrounded_step s (CallClosePosition i exitPrice pnl)"
    and "SumSymbolExposure s = mTotalExposure s"
  shows "SumSymbolExposure (snd (ClosePosition s i exitPrice pnl))
           = mTotalExposure (snd (ClosePosition s i exitPrice pnl))"
proof (cases "map_of (mOpenPositions s) i")
  case None
  then show ?thesis using assms(2) by (simp add: ClosePosition_def)
next
  case (Some p)
  with assms(1) have
    "fmul (mQuantity p) (mEntryPrice p) = mQuantity p * mEntryPrice p"
    "fsub (GetSymbolExposure s (mSymbol p)) (mQuantity p * mEntryPrice p)
       = GetSymbolExposure s (mSymbol p) - mQuantity p * mEntryPrice p"
    "fsub (mTotalExposure s) (mQuantity p * mEntryPrice p)
       = mTotalExposure s - mQuantity p * mEntryPrice p"
    by (simp_all add: unrounded_def fmul_def fsub_def)
  then show ?thesis
    using Some assms(2)
    by (simp add: ClosePosition_def SumSymbolExposure_def GetSymbolExposure_def
          sum_list_snd_update Let_def split: option.splits)
qed

lemma risk_step_sum:
  "unrounded_step s c \<Longrightarrow> SumSymbolExposure s = mTotalExposure s \<Longrightarrow>
   SumSymbolExposure (risk_step s c) = mTotalExposure (risk_step s c)"
proof (cases c)
  case (CallRegisterPosition p now)
  then show "unrounded_step s c \<Longrightarrow> SumSymbolExposure s = mTotalExposure s \<Longrightarrow> ?thesis"
    using RegisterPosition_sum [of s p now] by simp
next
  case (CallClosePosition i exitPrice pnl)
  then show "unrounded_step s c \<Longrightarrow> SumSymbolExposure s = mTotalExposure s \<Longrightarrow> ?thesis"
    using ClosePosition_sum [of s i exitPrice pnl] by simp
next
  case (CallCheckPositionAllowed symbol side q price n1 n2)
  then show "unrounded_step s c \<Longrightarrow> SumSymbolExposure s = mTotalExposure s \<Longrightarrow> ?thesis"
    by (simp add: SumSymbolExposure_def CheckPositionAllowed_frame)
next
  case (CallResetDailyStats now)
  then show "unrounded_step s c \<Longrightarrow> SumSymbolExposure s = mTotalExposure s \<Longrightarrow> ?thesis"
    by (simp add: SumSymbolExposure_def ResetDailyStats_def)
qed

lemma risk_run_sum:
  "unrounded_run s cs \<Longrightarrow> SumSymbolExposure s = mTotalExposure s \<Longrightarrow>
   SumSymbolExposure (risk_run s cs) = mTotalExposure (risk_run s cs)"
  by (induction cs arbitrary: s) (simp_all add: risk_step_sum)

lemma CRiskManager_ctor_sum:
  "SumSymbolExposure (CRiskManager_ctor now1 now2) = mTotalExposure (CRiskManager_ctor now1 now2)"
  by (simp add: CRiskManager_ctor_def SumSymbolExposure_def Let_def)

text \<open>
  C2, as the specification states it, fails: the exposure of each symbol and the total
  exposure are two running sums of doubles, each rounded on its own. Register \<^verbatim>\<open>0.1\<close> at
  price 1 on BTCUSDT and \<^verbatim>\<open>0.2\<close> at price 1 on ETHUSDT, then close the first position.
  The exposure of BTCUSDT is \<^verbatim>\<open>0.1 - 0.1 = 0\<close> and that of ETHUSDT is \<^verbatim>\<open>0.2\<close>, so the
  sum over the symbols is the double \<^verbatim>\<open>0.2\<close>, whether it is taken exactly or in doubles;
  the total exposure is \<^verbatim>\<open>(0.1 + 0.2) - 0.1\<close>, the double \<^verbatim>\<open>0.20000000000000004\<close>.
\<close>

theorem symbol_exposure_sum_rounds_apart:
  "mSymbolExposure (risk_run (CRiskManager_ctor 0 0) decimal_calls)
     = [(''BTCUSDT'', 0), (''ETHUSDT'', 3602879701896397 / 2 ^ 54)] \<and>
   GetTotalExposure (risk_run (CRiskManager_ctor 0 0) decimal_calls)
     = 7205759403792795 / 2 ^ 55 \<and>
   SumSymbolExposure (risk_run (CRiskManager_ctor 0 0) decimal_calls)
     = 3602879701896397 / 2 ^ 54 \<and>
   SumSymbolExposure_rounded (risk_run (CRiskManager_ctor 0 0) decimal_calls)
     = 3602879701896397 / 2 ^ 54 \<and>
   SumSymbolExposure (risk_run (CRiskManager_ctor 0 0) decimal_calls)
     \<noteq> GetTotalExposure (risk_run (CRiskManager_ctor 0 0) decimal_calls)"
proof -
  define A :: real where "A = 3602879701896397 / 2 ^ 55"
  define B :: real where "B = 3602879701896397 / 2 ^ 54"
  define C :: real where "C = 1351079888211149 / 2 ^ 52"
  define D :: real where "D = 7205759403792795 / 2 ^ 55"
  have literals: "round64 (1 / 10) = A" "round64 (1 / 5) = B"
    unfolding A_def B_def by (rule round64_decimals)+
  have doubles: "round64 A = A" "round64 B = B" "round64 D = D" "round64 0 = 0"
    unfolding A_def B_def D_def by (rule round64_doubles)+
  have sum: "round64 (A + B) = C"
    unfolding A_def B_def C_def by (rule round64_decimals)
  have diff: "C - A = D"
    by (simp add: A_def C_def D_def)
  have state: "mSymbolExposure (risk_run (CRiskManager_ctor 0 0) decimal_calls)
          = [(''BTCUSDT'', 0), (''ETHUSDT'', B)]"
    "mTotalExposure (risk_run (CRiskManager_ctor 0 0) decimal_calls) = D"
    by (simp_all add: decimal_calls_def tenth_position_def fifth_position_def
          scenario_position_def CRiskManager_ctor_def RegisterPosition_def ClosePosition_def
          Let_def fadd_def fsub_def fmul_def literals doubles sum diff)
  have "B \<noteq> D"
    by (simp add: B_def D_def)
  then have "mSymbolExposure (risk_run (CRiskManager_ctor 0 0) decimal_calls)
          = [(''BTCUSDT'', 0), (''ETHUSDT'', B)] \<and>
      GetTotalExposure (risk_run (CRiskManager_ctor 0 0) decimal_calls) = D \<and>
      SumSymbolExposure (risk_run (CRiskManager_ctor 0 0) decimal_calls) = B \<and>
      SumSymbolExposure_rounded (risk_run (CRiskManager_ctor 0 0) decimal_calls) = B \<and>
      SumSymbolExposure (risk_run (CRiskManager_ctor 0 0) decimal_calls)
        \<noteq> GetTotalExposure (risk_run (CRiskManager_ctor 0 0) decimal_calls)"
    by (simp add: state GetTotalExposure_def SumSymbolExposure_def
          SumSymbolExposure_rounded_def fadd_def doubles)
  then show ?thesis
    unfolding B_def D_def .
qed

text \<open>
  C2, amended. Whatever calls were made on a Risk Manager since its construction
  (registrations, closes that succeeded or threw, runs of the pre-trade gate, resets of the
  daily figures), if none of them rounded a product, a sum or a difference of exposures,
  the sum of the exposures of all symbols equals the total exposure. In any state a
  registration (with a non-empty id) adds the product of quantity and entry price to the
  exposure of the position's symbol, and closing an open position takes the product of the
  quantity and the entry price of the stored position off the exposure of its symbol, by the
  multiplication, addition and subtraction of doubles.
\<close>

theorem symbol_exposure_sum_is_total_unrounded:
  assumes "unrounded_run (CRiskManager_ctor now1 now2) calls"
  shows
  "SumSymbolExposure (risk_run (CRiskManager_ctor now1 now2) calls)
     = GetTotalExposure (risk_run (CRiskManager_ctor now1 now2) calls) \<and>
   GetSymbolExposure (snd (RegisterPosition (risk_run (CRiskManager_ctor now1 now2) calls) p now))
       (mSymbol p)
     = (if mId p = [] then GetSymbolExposure (risk_run (CRiskManager_ctor now1 now2) calls) (mSymbol p)
        else fadd (GetSymbolExposure (risk_run (CRiskManager_ctor now1 now2) calls) (mSymbol p))
                  (fmul (mQuantity p) (mEntryPrice p))) \<and>
   (case map_of (mOpenPositions (risk_run (CRiskManager_ctor now1 now2) calls)) i of
      None \<Rightarrow> True
    | Some q \<Rightarrow>
        GetSymbolExposure
            (snd (ClosePosition (risk_run (CRiskManager_ctor now1 now2) calls) i exitPrice pnl))
            (mSymbol q)
          = fsub (GetSymbolExposure (risk_run (CRiskManager_ctor now1 now2) calls) (mSymbol q))
                 (fmul (mQuantity q) (mEntryPrice q)))"
proof -
  have "SumSymbolExposure (risk_run (CRiskManager_ctor now1 now2) calls)
          = GetTotalExposure (risk_run (CRiskManager_ctor now1 now2) calls)"
    unfolding GetTotalExposure_def using assms by (rule risk_run_sum) (rule CRiskManager_ctor_sum)
  moreover have "GetSymbolExposure (snd (RegisterPosition s p now)) (mSymbol p)
     = (if mId p = [] then GetSymbolExposure s (mSymbol p)
        else fadd (GetSymbolExposure s (mSymbol p)) (fmul (mQuantity p) (mEntryPrice p)))" for s
    by (simp add: RegisterPosition_def GetSymbolExposure_def Let_def AList.update_conv')
  moreover have "(case map_of (mOpenPositions s) i of
      None \<Rightarrow> True
    | Some q \<Rightarrow> GetSymbolExposure (snd (ClosePosition s i exitPrice pnl)) (mSymbol q)
          = fsub (GetSymbolExposure s (mSymbol q)) (fmul (mQuantity q) (mEntryPrice q)))" for s
    by (simp add: ClosePosition_def GetSymbolExposure_def Let_def AList.update_conv'
          split: option.splits)
  ultimately show ?thesis by simp
qed

theorem symbol_exposure_sum_is_total_unrounded_witness:
  "unrounded_run (CRiskManager_ctor 0 0) integer_calls \<and>
   SumSymbolExposure (risk_run (CRiskManager_ctor 0 0) integer_calls) = 200 \<and>
   GetTotalExposure (risk_run (CRiskManager_ctor 0 0) integer_calls) = 200"
proof -
  have r: "mSymbolExposure (risk_run (CRiskManager_ctor 0 0) integer_calls)
             = [(''BTCUSDT'', 0), (''ETHUSDT'', 200)]"
    "mTotalExposure (risk_run (CRiskManager_ctor 0 0) integer_calls) = 200"
    by (simp_all add: integer_calls_def scenario_position_def second_position_def
          CRiskManager_ctor_def RegisterPosition_def ClosePosition_def CheckPositionAllowed_frame
          Let_def fadd_def fsub_def fmul_def unrounded_integers [THEN unrounded_round64])
  have a: "unrounded_run (CRiskManager_ctor 0 0) integer_calls"
    by (simp add: integer_calls_def scenario_position_def second_position_def
          CRiskManager_ctor_def RegisterPosition_def GetSymbolExposure_def
          CheckPositionAllowed_frame Let_def fadd_def fmul_def unrounded_integers
          unrounded_integers [THEN unrounded_round64])
  have b: "GetTotalExposure (risk_run (CRiskManager_ctor 0 0) integer_calls) = 200"
    by (simp add: GetTotalExposure_def r)
  from symbol_exposure_sum_is_total_unrounded [OF a] a b show ?thesis by simp
qed

subsection \<open>Closing an unknown position\<close>

text \<open>
  C10. For every Risk Manager state and every position id that is not a key of the
  open-positions map, \<^verbatim>\<open>ClosePosition\<close> throws (a \<^verbatim>\<open>runtime_error\<close> that names the id)
  and leaves the whole object as it was: the open positions, every symbol's exposure, the
  total exposure and today's PnL are those of before the call.
\<close>

theorem ClosePosition_unknown_id:
  "map_of (mOpenPositions s) positionId = None \<Longrightarrow>
     ClosePosition s positionId exitPrice pnl =
       (Some (runtime_error (''Position with ID '' @ [CHR 0x27] @ positionId @ [CHR 0x27]
                               @ '' not found'')), s)"
  by (simp add: ClosePosition_def)

theorem ClosePosition_unknown_id_witness:
  "map_of (mOpenPositions scenario_risk_state) ''pos_2'' = None \<and>
   ClosePosition scenario_risk_state ''pos_2'' 6100 25 =
     (Some (runtime_error ''Position with ID 'pos_2' not found''), scenario_risk_state)"
proof -
  have a: "map_of (mOpenPositions scenario_risk_state) ''pos_2'' = None"
    by (simp add: scenario_risk_state_def scenario_position_def RegisterPosition_def
          CRiskManager_ctor_def Let_def)
  from ClosePosition_unknown_id [OF a, of 6100 25] a show ?thesis by simp
qed

section \<open>Properties of the RSI strategy\<close>

subsection \<open>The kernel\<close>

lemma fold_index_sum:
  "fold (\<lambda>i sum. sum + xs ! i) [0 ..< n] (a::real) = a + sum_list (map (\<lambda>i. xs ! i) [0 ..< n])"
  by (induction n arbitrary: a) simp_all

lemma fold_index_sum_all:
  "fold (\<lambda>i sum. sum + xs ! i) [0 ..< length xs] (0::real) = sum_list xs"
  by (simp add: fold_index_sum map_nth)

lemma Wilders_full:
  "length values = p \<Longrightarrow> 0 < p \<Longrightarrow>
   CalculateWildersSmoothing values (int p) = sum_list values / real p"
  by (auto simp add: CalculateWildersSmoothing_def Let_def fold_index_sum_all)

lemma shifted_changes:
  assumes "p + 1 \<le> length x"
  shows "map (\<lambda>i. f (x ! i - x ! (i - 1))) [length x - p ..< length x]
       = map (\<lambda>k. f (drop (length x - (p + 1)) x ! (k + 1) - drop (length x - (p + 1)) x ! k)) [0 ..< p]"
proof (rule nth_equalityI)
  show "length (map (\<lambda>i. f (x ! i - x ! (i - 1))) [length x - p ..< length x])
      = length (map (\<lambda>k. f (drop (length x - (p + 1)) x ! (k + 1) - drop (length x - (p + 1)) x ! k)) [0 ..< p])"
    using assms by simp
next
  fix i assume "i < length (map (\<lambda>i. f (x ! i - x ! (i - 1))) [length x - p ..< length x])"
  then have i: "i < p" using assms by simp
  have a: "length x - (p + 1) + (i + 1) = length x - p + i" using assms by arith
  have b: "length x - (p + 1) + i = length x - p + i - 1" using assms by arith
  have l: "map (\<lambda>i. f (x ! i - x ! (i - 1))) [length x - p ..< length x] ! i
         = f (x ! (length x - p + i) - x ! (length x - p + i - 1))"
    using i assms by simp
  have r: "map (\<lambda>k. f (drop (length x - (p + 1)) x ! (k + 1) - drop (length x - (p + 1)) x ! k)) [0 ..< p] ! i
         = f (x ! (length x - (p + 1) + (i + 1)) - x ! (length x - (p + 1) + i))"
    using i assms by (simp del: One_nat_def add_Suc_right)
  show "map (\<lambda>i. f (x ! i - x ! (i - 1))) [length x - p ..< length x] ! i
      = map (\<lambda>k. f (drop (length x - (p + 1)) x ! (k + 1) - drop (length x - (p + 1)) x ! k)) [0 ..< p] ! i"
    unfolding l r a b ..
qed

text \<open>
  C3. For every sequence of closes \<open>x\<close> and every period \<open>p \<ge> 1\<close> (an \<^verbatim>\<open>int\<close> for which
  \<open>p + 1\<close> does not overflow), \<^verbatim>\<open>CalculateRSI\<close> computes the RSI as the specification
  words it: the sentinel 50 when \<open>x\<close> has fewer than \<open>p + 1\<close> elements; otherwise, from the
  \<open>p\<close> consecutive changes of the last \<open>p + 1\<close> closes, the simple averages of the gains
  \<open>max(\<Delta>, 0)\<close> and of the losses \<open>max(-\<Delta>, 0)\<close>, then 100 when the average loss is 0 and
  \<open>100 - 100 / (1 + avg_gain / avg_loss)\<close> otherwise.
\<close>

theorem CalculateRSI_is_RSI_spec:
  assumes "1 \<le> period" and "period < 2 ^ 31 - 1"
  shows "CalculateRSI x period = RSI_spec x (nat period)"
proof -
  define p where "p = nat period"
  have p: "period = int p" "0 < p" using assms by (simp_all add: p_def)
  have cast: "size_t_of_int (period + 1) = p + 1"
    using assms by (simp add: size_t_of_int_def p nat_add_distrib)
  show ?thesis
  proof (cases "length x < p + 1")
    case True
    then show ?thesis by (simp add: CalculateRSI_def RSI_spec_def cast flip: p_def)
  next
    case False
    then have le: "p + 1 \<le> length x" by simp
    define closes where "closes = drop (length x - (p + 1)) x"
    define deltas where "deltas = map (\<lambda>k. closes ! (k + 1) - closes ! k) [0 ..< p]"
    define gains where "gains = map (\<lambda>i. let change = x ! i - x ! (i - 1)
                              in if change > 0 then change else 0) [length x - p ..< length x]"
    define losses where "losses = map (\<lambda>i. let change = x ! i - x ! (i - 1)
                               in if change < 0 then - change else 0) [length x - p ..< length x]"
    have "gains = map (\<lambda>i. (\<lambda>d. max d 0) (x ! i - x ! (i - 1))) [length x - p ..< length x]"
      unfolding gains_def by (rule map_cong) (auto simp: Let_def max_def)
    also have "\<dots> = map (\<lambda>d. max d 0) deltas"
      unfolding deltas_def closes_def map_map comp_def by (rule shifted_changes [OF le])
    finally have g: "gains = map (\<lambda>d. max d 0) deltas" .
    have "losses = map (\<lambda>i. (\<lambda>d. max (- d) 0) (x ! i - x ! (i - 1))) [length x - p ..< length x]"
      unfolding losses_def by (rule map_cong) (auto simp: Let_def max_def)
    also have "\<dots> = map (\<lambda>d. max (- d) 0) deltas"
      unfolding deltas_def closes_def map_map comp_def by (rule shifted_changes [OF le])
    finally have l: "losses = map (\<lambda>d. max (- d) 0) deltas" .
    have len: "length gains = p" "length losses = p"
      using le by (simp_all add: gains_def losses_def)
    have avg: "CalculateWildersSmoothing gains period = sum_list gains / real p"
      "CalculateWildersSmoothing losses period = sum_list losses / real p"
      unfolding p(1) by (rule Wilders_full [OF _ p(2)], simp add: len)+
    have lhs0: "CalculateRSI x period =
       (if CalculateWildersSmoothing losses period = 0 then 100
        else 100 - 100 / (1 + CalculateWildersSmoothing gains period
                               / CalculateWildersSmoothing losses period))"
      using False unfolding CalculateRSI_def cast gains_def losses_def p_def
      by (simp add: Let_def)
    have lhs: "CalculateRSI x period =
       (if sum_list losses / real p = 0 then 100
        else 100 - 100 / (1 + (sum_list gains / real p) / (sum_list losses / real p)))"
      unfolding lhs0 avg ..
    have rhs: "RSI_spec x (nat period) =
       (if sum_list (map (\<lambda>d. max (- d) 0) deltas) / real p = 0 then 100
        else 100 - 100 / (1 + (sum_list (map (\<lambda>d. max d 0) deltas) / real p)
                               / (sum_list (map (\<lambda>d. max (- d) 0) deltas) / real p)))"
      using False unfolding RSI_spec_def deltas_def closes_def p_def
      by (simp add: Let_def)
    show ?thesis unfolding lhs rhs g l ..
  qed
qed

theorem CalculateRSI_is_RSI_spec_witness:
  "(1::int) \<le> 2 \<and> (2::int) < 2 ^ 31 - 1 \<and>
   CalculateRSI [100, 101, 98] 2 = RSI_spec [100, 101, 98] (nat 2) \<and>
   CalculateRSI [100, 101, 98] 2 = 25 \<and>
   CalculateRSI [100, 101] 2 = 50 \<and>
   CalculateRSI [1, 2, 3] 2 = 100"
proof -
  have a: "(1::int) \<le> 2" by simp
  have b: "(2::int) < 2 ^ 31 - 1" by simp
  have c: "RSI_spec [100, 101, 98] (nat 2) = 25"
    by (simp add: RSI_spec_def Let_def numeral_2_eq_2 upt_rec)
  have d: "RSI_spec [100, 101] (nat 2) = 50"
    by (simp add: RSI_spec_def)
  have e: "RSI_spec [1, 2, 3] (nat 2) = 100"
    by (simp add: RSI_spec_def Let_def numeral_2_eq_2 upt_rec)
  from CalculateRSI_is_RSI_spec [OF a b] c d e show ?thesis by simp
qed

subsection \<open>The values written by \<^verbatim>\<open>CalculateRSIValues\<close>\<close>

text \<open>Since \<open>outValues\<close> is the member \<^verbatim>\<open>mCurrentRSIValues\<close>, the previous RSI that
  \<^verbatim>\<open>CalculateRSIValues\<close> stores is the RSI it has just computed, and the change it stores
  is 0.\<close>

lemma CalculateRSIValues_change:
  "\<not> length prices < size_t_of_int (mRSIPeriod (mParams s) + 1) \<Longrightarrow>
     mPreviousRSI (mCurrentRSIValues (CalculateRSIValues s prices now))
       = mRSI (mCurrentRSIValues (CalculateRSIValues s prices now)) \<and>
     mRSIChange (mCurrentRSIValues (CalculateRSIValues s prices now)) = 0"
  by (simp add: CalculateRSIValues_def Let_def)

subsection \<open>The rolling buffers\<close>

lemma pop_front_while_length:
  "length (pop_front_while maxSize d) = min maxSize (length d)"
proof (induction maxSize d rule: pop_front_while.induct)
  case (1 maxSize d)
  show ?case
  proof (cases "length d > maxSize")
    case True
    with 1 show ?thesis by (subst pop_front_while.simps) auto
  next
    case False
    then show ?thesis by (subst pop_front_while.simps) auto
  qed
qed

lemma UpdateGainsAndLosses_frame:
  "mParams (UpdateGainsAndLosses s c p) = mParams s"
  "mRSIHistory (UpdateGainsAndLosses s c p) = mRSIHistory s"
  "mSignalHistory (UpdateGainsAndLosses s c p) = mSignalHistory s"
  "mClosePrices (UpdateGainsAndLosses s c p) = mClosePrices s"
  by (simp_all add: UpdateGainsAndLosses_def Let_def split: prod.splits)

lemma UpdateClosePrices_body_frame:
  "mParams (UpdateClosePrices_body k s) = mParams s"
  "mRSIHistory (UpdateClosePrices_body k s) = mRSIHistory s"
  "mSignalHistory (UpdateClosePrices_body k s) = mSignalHistory s"
  by (simp_all add: UpdateClosePrices_body_def Let_def UpdateGainsAndLosses_frame)

lemma UpdateClosePrices_fold_frame:
  "mParams (fold UpdateClosePrices_body klines s) = mParams s \<and>
   mRSIHistory (fold UpdateClosePrices_body klines s) = mRSIHistory s \<and>
   mSignalHistory (fold UpdateClosePrices_body klines s) = mSignalHistory s"
  by (induction klines arbitrary: s) (simp_all add: UpdateClosePrices_body_frame)

lemma UpdateClosePrices_frame:
  "mParams (UpdateClosePrices s klines) = mParams s"
  "mRSIHistory (UpdateClosePrices s klines) = mRSIHistory s"
  "mSignalHistory (UpdateClosePrices s klines) = mSignalHistory s"
  by (simp_all add: UpdateClosePrices_def Let_def UpdateClosePrices_fold_frame)

lemma UpdateClosePrices_length:
  "int (length (mClosePrices (UpdateClosePrices s klines))) \<le> max (mRSIPeriod (mParams s) * 3) 200"
  by (simp add: UpdateClosePrices_def Let_def UpdateClosePrices_fold_frame pop_front_while_length)

lemma CalculateRSIValues_frame:
  "mParams (CalculateRSIValues s prices now) = mParams s"
  "mRSIHistory (CalculateRSIValues s prices now) = mRSIHistory s"
  "mSignalHistory (CalculateRSIValues s prices now) = mSignalHistory s"
  "mClosePrices (CalculateRSIValues s prices now) = mClosePrices s"
  by (simp_all add: CalculateRSIValues_def Let_def)

lemma UpdateRSIHistory_frame:
  "mParams (UpdateRSIHistory s) = mParams s"
  "length (mRSIHistory (UpdateRSIHistory s)) \<le> 500"
  "mSignalHistory (UpdateRSIHistory s) = mSignalHistory s"
  "mClosePrices (UpdateRSIHistory s) = mClosePrices s"
  by (simp_all add: UpdateRSIHistory_def Let_def pop_front_while_length)

lemma AddSignalToHistory_frame:
  "mParams (AddSignalToHistory s t v p d now) = mParams s"
  "mRSIHistory (AddSignalToHistory s t v p d now) = mRSIHistory s"
  "length (mSignalHistory (AddSignalToHistory s t v p d now)) \<le> 100"
  "mClosePrices (AddSignalToHistory s t v p d now) = mClosePrices s"
  by (simp_all add: AddSignalToHistory_def Let_def pop_front_while_length)

lemma UpdateZoneStatistics_frame:
  "mParams (UpdateZoneStatistics s z) = mParams s"
  "mRSIHistory (UpdateZoneStatistics s z) = mRSIHistory s"
  "mSignalHistory (UpdateZoneStatistics s z) = mSignalHistory s"
  "mClosePrices (UpdateZoneStatistics s z) = mClosePrices s"
  by (simp_all add: UpdateZoneStatistics_def)

lemmas rsi_frames = UpdateClosePrices_frame UpdateClosePrices_length CalculateRSIValues_frame
  UpdateRSIHistory_frame AddSignalToHistory_frame UpdateZoneStatistics_frame

lemma Update_params: "mParams (snd (Update s klines ticker clk)) = mParams s"
  by (simp add: Update_def Let_def rsi_frames split: prod.splits)

lemma Update_bounded:
  assumes "rsi_bounded s"
  shows "rsi_bounded (snd (Update s klines ticker clk))"
  using assms UpdateClosePrices_length [of s klines]
  unfolding rsi_bounded_def Update_def Let_def
  by (simp add: rsi_frames split: prod.splits)

lemma rsi_run_bounded: "rsi_bounded s \<Longrightarrow> rsi_bounded (rsi_run s calls)"
  by (induction s calls rule: rsi_run.induct) (simp_all add: Update_bounded)

lemma rsi_run_params: "mParams (rsi_run s calls) = mParams s"
  by (induction s calls rule: rsi_run.induct) (simp_all add: Update_params)

text \<open>
  C7. Whatever calls of \<^verbatim>\<open>Update\<close> were made on an RSI strategy since it was constructed
  (and initialised, or not), each with any number of candles, the history of RSI values holds at most
  500 entries, the history of emitted signals at most 100, and the buffer of closes at most
  \<open>max(period \<times> 3, 200)\<close>.
\<close>

theorem rsi_buffers_bounded:
  "length (mRSIHistory (rsi_run (if initialized then Initialize (CRSIStrategy_ctor params)
                                  else CRSIStrategy_ctor params) calls)) \<le> 500 \<and>
   length (mSignalHistory (rsi_run (if initialized then Initialize (CRSIStrategy_ctor params)
                                     else CRSIStrategy_ctor params) calls)) \<le> 100 \<and>
   int (length (mClosePrices (rsi_run (if initialized then Initialize (CRSIStrategy_ctor params)
                                        else CRSIStrategy_ctor params) calls)))
     \<le> max (mRSIPeriod params * 3) 200"
proof -
  define s0 where "s0 = (if initialized then Initialize (CRSIStrategy_ctor params)
                         else CRSIStrategy_ctor params)"
  have "rsi_bounded s0"
    by (simp add: s0_def rsi_bounded_def Initialize_def CRSIStrategy_ctor_def)
  then have "rsi_bounded (rsi_run s0 calls)"
    by (rule rsi_run_bounded)
  moreover have "mParams (rsi_run s0 calls) = params"
    by (simp add: s0_def rsi_run_params Initialize_def CRSIStrategy_ctor_def)
  ultimately show ?thesis
    unfolding s0_def [symmetric] by (simp add: rsi_bounded_def)
qed

subsection \<open>The order of the classification rules\<close>





text \<open>In the source, \<^verbatim>\<open>AnalyzeRSISignal\<close> tries the momentum rule before the zone rules.
  The momentum rule needs a stored RSI change that is not 0, and \<^verbatim>\<open>Update\<close> never
  stores one: on every object that calls of \<^verbatim>\<open>Update\<close> produce, the rule does not match,
  so its place in the order does not show.\<close>

lemma DetectMomentumSignal_no_change:
  "mRSIChange current = 0 \<Longrightarrow> mRSIChange previous = 0 \<Longrightarrow>
     DetectMomentumSignal s current previous = NONE"
  by (simp add: DetectMomentumSignal_def)

lemma DetermineRSIZone_params:
  "mParams s = mParams s' \<Longrightarrow> DetermineRSIZone s r = DetermineRSIZone s' r"
  by (simp add: DetermineRSIZone_def)

lemma UpdateGainsAndLosses_values:
  "mCurrentRSIValues (UpdateGainsAndLosses s c p) = mCurrentRSIValues s"
  "mPreviousRSIValues (UpdateGainsAndLosses s c p) = mPreviousRSIValues s"
  "mCurrentZone (UpdateGainsAndLosses s c p) = mCurrentZone s"
  "mPreviousZone (UpdateGainsAndLosses s c p) = mPreviousZone s"
  by (simp_all add: UpdateGainsAndLosses_def Let_def split: prod.splits)

lemma UpdateClosePrices_body_values:
  "mCurrentRSIValues (UpdateClosePrices_body k s) = mCurrentRSIValues s"
  "mPreviousRSIValues (UpdateClosePrices_body k s) = mPreviousRSIValues s"
  "mCurrentZone (UpdateClosePrices_body k s) = mCurrentZone s"
  "mPreviousZone (UpdateClosePrices_body k s) = mPreviousZone s"
  by (simp_all add: UpdateClosePrices_body_def Let_def UpdateGainsAndLosses_values)

lemma UpdateClosePrices_fold_values:
  "mCurrentRSIValues (fold UpdateClosePrices_body klines s) = mCurrentRSIValues s \<and>
   mPreviousRSIValues (fold UpdateClosePrices_body klines s) = mPreviousRSIValues s \<and>
   mCurrentZone (fold UpdateClosePrices_body klines s) = mCurrentZone s \<and>
   mPreviousZone (fold UpdateClosePrices_body klines s) = mPreviousZone s"
  by (induction klines arbitrary: s) (simp_all add: UpdateClosePrices_body_values)

lemma UpdateClosePrices_values:
  "mCurrentRSIValues (UpdateClosePrices s klines) = mCurrentRSIValues s"
  "mPreviousRSIValues (UpdateClosePrices s klines) = mPreviousRSIValues s"
  "mCurrentZone (UpdateClosePrices s klines) = mCurrentZone s"
  "mPreviousZone (UpdateClosePrices s klines) = mPreviousZone s"
  by (simp_all add: UpdateClosePrices_def Let_def UpdateClosePrices_fold_values)

lemma CalculateRSIValues_values:
  "mRSIChange (mCurrentRSIValues (CalculateRSIValues s prices now))
     = (if length prices < size_t_of_int (mRSIPeriod (mParams s) + 1)
        then mRSIChange (mCurrentRSIValues s) else 0)"
  "mPreviousRSIValues (CalculateRSIValues s prices now) = mPreviousRSIValues s"
  "mCurrentZone (CalculateRSIValues s prices now) = mCurrentZone s"
  "mPreviousZone (CalculateRSIValues s prices now) = mPreviousZone s"
  by (simp_all add: CalculateRSIValues_def Let_def)

lemma UpdateRSIHistory_values:
  "mCurrentRSIValues (UpdateRSIHistory s) = mCurrentRSIValues s"
  "mPreviousRSIValues (UpdateRSIHistory s) = mPreviousRSIValues s"
  "mCurrentZone (UpdateRSIHistory s) = mCurrentZone s"
  "mPreviousZone (UpdateRSIHistory s) = mPreviousZone s"
  by (simp_all add: UpdateRSIHistory_def Let_def)

lemma AddSignalToHistory_values:
  "mCurrentRSIValues (AddSignalToHistory s t v p d now) = mCurrentRSIValues s"
  "mPreviousRSIValues (AddSignalToHistory s t v p d now) = mPreviousRSIValues s"
  "mCurrentZone (AddSignalToHistory s t v p d now) = mCurrentZone s"
  "mPreviousZone (AddSignalToHistory s t v p d now) = mPreviousZone s"
  by (simp_all add: AddSignalToHistory_def Let_def)

lemma UpdateZoneStatistics_values:
  "mCurrentRSIValues (UpdateZoneStatistics s z) = mCurrentRSIValues s"
  "mPreviousRSIValues (UpdateZoneStatistics s z) = mPreviousRSIValues s"
  "mCurrentZone (UpdateZoneStatistics s z) = mCurrentZone s"
  "mPreviousZone (UpdateZoneStatistics s z) = mPreviousZone s"
  by (simp_all add: UpdateZoneStatistics_def)

lemmas rsi_values = UpdateClosePrices_values CalculateRSIValues_values UpdateRSIHistory_values
  AddSignalToHistory_values UpdateZoneStatistics_values



lemma Update_classification_state_consistent:
  assumes "rsi_consistent s"
  shows "mRSIChange (mCurrentRSIValues (Update_classification_state s klines clk)) = 0"
    and "mRSIChange (mPreviousRSIValues (Update_classification_state s klines clk)) = 0"
    and "IsValidRSIValues (mCurrentRSIValues (Update_classification_state s klines clk)) \<Longrightarrow>
           DetermineRSIZone (Update_classification_state s klines clk)
               (mRSI (mCurrentRSIValues (Update_classification_state s klines clk)))
             = mCurrentZone (Update_classification_state s klines clk)"
    and "IsValidRSIValues (mPreviousRSIValues (Update_classification_state s klines clk)) \<Longrightarrow>
           DetermineRSIZone (Update_classification_state s klines clk)
               (mRSI (mPreviousRSIValues (Update_classification_state s klines clk)))
             = mPreviousZone (Update_classification_state s klines clk)"
  using assms
  unfolding rsi_consistent_def Update_classification_state_def Let_def
  by (simp_all add: rsi_values rsi_frames DetermineRSIZone_def)

lemma Update_momentum_never_matches:
  assumes "rsi_consistent s"
  shows "DetectMomentumSignal (Update_classification_state s klines clk)
           (mCurrentRSIValues (Update_classification_state s klines clk))
           (mPreviousRSIValues (Update_classification_state s klines clk)) = NONE"
  using Update_classification_state_consistent(1,2) [OF assms]
  by (rule DetectMomentumSignal_no_change)





section \<open>The cooldown of the three strategies\<close>

lemma int_div_less_iff:
  fixes d k n :: int
  assumes k: "0 < k"
  shows "d div k < n \<longleftrightarrow> d < n * k"
proof
  assume a: "d div k < n"
  have "d = k * (d div k) + d mod k" by simp
  moreover have "d mod k < k" using k by simp
  moreover have "k * (d div k) \<le> k * (n - 1)" using a k by (intro mult_left_mono) simp_all
  ultimately have "d < k * (n - 1) + k" by linarith
  then show "d < n * k" by (simp add: algebra_simps)
next
  assume a: "d < n * k"
  show "d div k < n"
  proof (rule ccontr)
    assume "\<not> d div k < n"
    then have "n \<le> d div k" by simp
    then have "k * n \<le> k * (d div k)" using k by (intro mult_left_mono) simp_all
    moreover have "d = k * (d div k) + d mod k" by simp
    moreover have "0 \<le> d mod k" using k by simp
    ultimately have "k * n \<le> d" by linarith
    with a show False by (simp add: algebra_simps)
  qed
qed

lemma duration_cast_minutes_less:
  assumes n: "0 < n"
  shows "duration_cast_minutes d < n \<longleftrightarrow> d < n * ticks_per_minute"
proof -
  have tpm: "0 < ticks_per_minute" by (simp add: ticks_per_minute_def ticks_per_second_def)
  show ?thesis
  proof (cases "d < 0")
    case True
    then have "0 \<le> (- d) div ticks_per_minute" using tpm
      by (simp add: pos_imp_zdiv_nonneg_iff)
    moreover have "0 < n * ticks_per_minute" using n tpm by simp
    ultimately show ?thesis using True n by (simp add: duration_cast_minutes_def)
  next
    case False
    then show ?thesis using tpm
      by (simp add: duration_cast_minutes_def int_div_less_iff)
  qed
qed

text \<open>
  C5, as the specification states it, fails. On an RSI strategy of period 2, three calls of
  \<^verbatim>\<open>Update\<close> one minute apart bring the RSI to 29, to 31 and to 29 again. The signal
  history is then \<^verbatim>\<open>BUY_OVERSOLD\<close> at minute 0, \<^verbatim>\<open>BUY_OVERSOLD_EXIT\<close> at minute 1 and
  \<^verbatim>\<open>BUY_OVERSOLD\<close> at minute 2: the same kind twice within two minutes, with another
  kind in between.
\<close>

theorem same_kind_twice_within_cooldown:
  "map mType_hist (mSignalHistory (rsi_run short_rsi_strategy alternating_calls))
     = [BUY_OVERSOLD, BUY_OVERSOLD_EXIT, BUY_OVERSOLD] \<and>
   map (mRSI \<circ> mValues_hist) (mSignalHistory (rsi_run short_rsi_strategy alternating_calls))
     = [29, 31, 29] \<and>
   map mTimestamp_hist (mSignalHistory (rsi_run short_rsi_strategy alternating_calls))
     = [0, 1 * ticks_per_minute, 2 * ticks_per_minute]"
  by code_simp

lemma ShouldGenerateSignal_refuses:
  "\<not> ShouldGenerateSignal rsi kind_rsi now \<longleftrightarrow>
      mSignalHistory rsi \<noteq> [] \<and> mType_hist (last (mSignalHistory rsi)) = kind_rsi \<and>
      now - mTimestamp_hist (last (mSignalHistory rsi)) < 10 * ticks_per_minute"
  by (simp add: ShouldGenerateSignal_def Let_def duration_cast_minutes_less)

lemma adjacent_cooled_append:
  "adjacent_cooled c (h @ [x]) \<longleftrightarrow>
     adjacent_cooled c h \<and>
     (h = [] \<or> mType_hist (last h) \<noteq> mType_hist x
        \<or> c \<le> mTimestamp_hist x - mTimestamp_hist (last h))"
  by (induction c h rule: adjacent_cooled.induct) auto

lemma adjacent_cooled_tl: "adjacent_cooled c h \<Longrightarrow> adjacent_cooled c (tl h)"
  by (induction c h rule: adjacent_cooled.induct) auto

lemma adjacent_cooled_pop_front_while:
  "adjacent_cooled c h \<Longrightarrow> adjacent_cooled c (pop_front_while maxSize h)"
proof (induction maxSize h rule: pop_front_while.induct)
  case (1 maxSize d)
  show ?case
  proof (cases "length d > maxSize")
    case True
    with 1 show ?thesis
      by (subst pop_front_while.simps) (simp add: adjacent_cooled_tl)
  next
    case False
    with 1 show ?thesis by (subst pop_front_while.simps) simp
  qed
qed

lemma AddSignalToHistory_cooled:
  assumes "adjacent_cooled (10 * ticks_per_minute) (mSignalHistory s)"
    and "ShouldGenerateSignal s signalType now" and "now \<le> now'"
  shows "adjacent_cooled (10 * ticks_per_minute)
           (mSignalHistory (AddSignalToHistory s signalType values price description now'))"
proof -
  from assms(2) have "\<not> (\<not> ShouldGenerateSignal s signalType now)" by simp
  then have "\<not> (mSignalHistory s \<noteq> [] \<and> mType_hist (last (mSignalHistory s)) = signalType \<and>
      now - mTimestamp_hist (last (mSignalHistory s)) < 10 * ticks_per_minute)"
    unfolding ShouldGenerateSignal_refuses .
  then have "mSignalHistory s = [] \<or> mType_hist (last (mSignalHistory s)) \<noteq> signalType
        \<or> 10 * ticks_per_minute \<le> now' - mTimestamp_hist (last (mSignalHistory s))"
    using assms(3) by auto
  then have "adjacent_cooled (10 * ticks_per_minute)
       (mSignalHistory s @
        [\<lparr> mType_hist = signalType, mValues_hist = values, mZone_hist = mCurrentZone s,
           mPrice_hist = price, mTimestamp_hist = now', mDescription_hist = description,
           mStrength_hist = GetSignalStrength s signalType values \<rparr>])"
    using assms(1) by (simp add: adjacent_cooled_append)
  then show ?thesis
    by (simp add: AddSignalToHistory_def Let_def adjacent_cooled_pop_front_while)
qed

lemma Update_cooled:
  assumes "adjacent_cooled (10 * ticks_per_minute) (mSignalHistory s)"
    and "now_should clk \<le> now_history clk"
  shows "adjacent_cooled (10 * ticks_per_minute) (mSignalHistory (snd (Update s klines ticker clk)))"
  using assms unfolding Update_def Let_def
  by (auto simp add: rsi_frames split: prod.splits
        intro!: AddSignalToHistory_cooled [where now = "now_should clk"])

lemma rsi_run_cooled:
  "adjacent_cooled (10 * ticks_per_minute) (mSignalHistory s) \<Longrightarrow> clocks_forward calls \<Longrightarrow>
   adjacent_cooled (10 * ticks_per_minute) (mSignalHistory (rsi_run s calls))"
  by (induction s calls rule: rsi_run.induct) (simp_all add: Update_cooled)

text \<open>
  C5, amended. In each of the three strategies \<^verbatim>\<open>ShouldGenerateSignal\<close> refuses a kind of
  signal exactly when the signal history is not empty, its last entry has that kind, and
  fewer ticks than the cooldown (10 minutes for RSI, 15 for SMA, 5 for MACD) lie between the
  time stamp of that entry and the clock: the cooldown is against the most recent emission
  only. So, in the signal history of an RSI strategy after any calls of \<^verbatim>\<open>Update\<close> in
  which the clock did not run backwards between the test and the time stamp, two entries of
  the same kind that stand next to each other are at least 10 minutes apart.
\<close>

theorem cooldown_is_against_last_signal:
  "(\<not> ShouldGenerateSignal rsi kind_rsi now \<longleftrightarrow>
      mSignalHistory rsi \<noteq> [] \<and> mType_hist (last (mSignalHistory rsi)) = kind_rsi \<and>
      now - mTimestamp_hist (last (mSignalHistory rsi)) < 10 * ticks_per_minute) \<and>
   (\<not> ShouldGenerateSignal_sma sma kind_sma now \<longleftrightarrow>
      mSignalHistory_sma sma \<noteq> [] \<and> mType_smahist (last (mSignalHistory_sma sma)) = kind_sma \<and>
      now - mTimestamp_smahist (last (mSignalHistory_sma sma)) < 15 * ticks_per_minute) \<and>
   (\<not> ShouldGenerateSignal_macd macd kind_macd now \<longleftrightarrow>
      mSignalHistory_macd macd \<noteq> [] \<and> mType_macdhist (last (mSignalHistory_macd macd)) = kind_macd \<and>
      now - mTimestamp_macdhist (last (mSignalHistory_macd macd)) < 5 * ticks_per_minute) \<and>
   (clocks_forward calls \<longrightarrow>
      adjacent_cooled (10 * ticks_per_minute)
        (mSignalHistory (rsi_run (Initialize (CRSIStrategy_ctor params)) calls)))"
proof -
  have "adjacent_cooled (10 * ticks_per_minute)
          (mSignalHistory (Initialize (CRSIStrategy_ctor params)))"
    by (simp add: Initialize_def CRSIStrategy_ctor_def)
  then have "clocks_forward calls \<longrightarrow>
      adjacent_cooled (10 * ticks_per_minute)
        (mSignalHistory (rsi_run (Initialize (CRSIStrategy_ctor params)) calls))"
    by (simp add: rsi_run_cooled)
  then show ?thesis
    by (simp add: ShouldGenerateSignal_refuses ShouldGenerateSignal_sma_def
          ShouldGenerateSignal_macd_def Let_def duration_cast_minutes_less)
qed

theorem cooldown_is_against_last_signal_witness:
  "clocks_forward alternating_calls \<and>
   adjacent_cooled (10 * ticks_per_minute)
     (mSignalHistory (rsi_run short_rsi_strategy alternating_calls))"
proof -
  have a: "clocks_forward alternating_calls"
    by (simp add: alternating_calls_def clock_at_def)
  from cooldown_is_against_last_signal
         [where calls = alternating_calls and params = "SRSIParams_default\<lparr> mRSIPeriod := 2 \<rparr>"]
       a
  show ?thesis by (simp add: short_rsi_strategy_def)
qed

section \<open>Properties of the SMA strategy\<close>

lemma DetectTripleMASignals_none:
  "DetectTripleMASignals s current previous = SMA_NONE"
  by (simp add: DetectTripleMASignals_def)

lemma AnalyzeSMASignal_never_triple:
  "AnalyzeSMASignal s current previous \<noteq> TRIPLE_ALIGNMENT_BULL"
  "AnalyzeSMASignal s current previous \<noteq> TRIPLE_ALIGNMENT_BEAR"
  by (simp_all add: AnalyzeSMASignal_def Let_def DetectTripleMASignals_none DetectCrossover_def
        DetectTrendSignals_def)

text \<open>
  C6 does not hold of the code. In a triple-MA strategy whose averages were 103, 101, 102 at
  the previous update and are 103, 102.5, 102 now, the alignment fast > slow > long has just
  become true and neither the crossover rules nor the trend rules match; the classification
  is \<^verbatim>\<open>NONE\<close> all the same, where the claim has \<^verbatim>\<open>TRIPLE_ALIGNMENT_BULL\<close>: each
  condition of \<^verbatim>\<open>DetectTripleMASignals\<close> is the conjunction of a test and its own
  negation.
\<close>

theorem triple_alignment_not_signalled:
  "mConfiguration aligned_sma_strategy = TRIPLE_MA \<and>
   IsTripleAlignment aligned_sma_strategy True \<and>
   \<not> IsTripleAlignment
        (aligned_sma_strategy\<lparr> mCurrentSMAValues := mPreviousSMAValues aligned_sma_strategy \<rparr>)
        True \<and>
   DetectCrossover (mCurrentSMAValues aligned_sma_strategy)
     (mPreviousSMAValues aligned_sma_strategy) = SMA_NONE \<and>
   DetectTrendSignals aligned_sma_strategy (mCurrentSMAValues aligned_sma_strategy)
     (mPreviousSMAValues aligned_sma_strategy) = SMA_NONE \<and>
   DetectTripleMASignals aligned_sma_strategy (mCurrentSMAValues aligned_sma_strategy)
     (mPreviousSMAValues aligned_sma_strategy) = SMA_NONE \<and>
   AnalyzeSMASignal aligned_sma_strategy (mCurrentSMAValues aligned_sma_strategy)
     (mPreviousSMAValues aligned_sma_strategy) = SMA_NONE"
  by (simp add: aligned_sma_strategy_def sma_values_def IsTripleAlignment_def
        DetectCrossover_def IsGoldenCross_def IsDeathCross_def DetectTrendSignals_def
        IsPullbackOpportunity_def DetectTripleMASignals_def AnalyzeSMASignal_def
        IsValidSMAValues_def Let_def)

theorem triple_alignment_not_signalled_witness:
  "IsTripleAlignment aligned_sma_strategy True \<and>
   AnalyzeSMASignal aligned_sma_strategy (mCurrentSMAValues aligned_sma_strategy)
     (mPreviousSMAValues aligned_sma_strategy) = SMA_NONE"
  using triple_alignment_not_signalled by simp

section \<open>Properties of the Backtester\<close>

text \<open>The loader from the API ends with a sort: when it returns, the candles are in the
  order of their open times.\<close>

lemma LoadHistoricalDataFromAPI_sorted:
  "LoadHistoricalDataFromAPI s = Some (None, s') \<Longrightarrow>
     sorted (map mOpenTime (mHistoricalData s'))"
  by (auto simp add: LoadHistoricalDataFromAPI_def Let_def split: option.splits if_splits)

text \<open>
  C8 does not hold of the code for the CSV file. \<^verbatim>\<open>LoadHistoricalData\<close> on a file of a
  header and two candles, the one of open time 2000 before the one of open time 1000,
  returns without an exception and stores the candles in the order of the file, which is
  not the order of the open times: unlike \<^verbatim>\<open>LoadHistoricalDataFromAPI\<close>, it does not
  sort.
\<close>

theorem csv_load_keeps_file_order:
  "fst (LoadHistoricalData (CBackTester_ctor 1700000000) ''data.csv'' (Some unsorted_csv)) = None \<and>
   map mOpenTime (mHistoricalData
     (snd (LoadHistoricalData (CBackTester_ctor 1700000000) ''data.csv'' (Some unsorted_csv))))
     = [2000, 1000] \<and>
   \<not> sorted (map mOpenTime (mHistoricalData
     (snd (LoadHistoricalData (CBackTester_ctor 1700000000) ''data.csv'' (Some unsorted_csv)))))"
  by code_simp

section \<open>Properties of the Strategy Engine\<close>

text \<open>
  C9. For every call of \<^verbatim>\<open>ExecuteStrategy\<close> on a registered strategy: when the state of
  the strategy is not \<^verbatim>\<open>ACTIVE\<close>, the call returns a HOLD signal with the message
  ``Strategy is not active'' and leaves the engine, with the strategy object in it, as it
  was, whatever \<^verbatim>\<open>Update\<close> would do: \<^verbatim>\<open>Update\<close> is not called. When \<^verbatim>\<open>Update\<close> returns
  a signal that fails \<^verbatim>\<open>ValidateStrategy\<close> or the \<^verbatim>\<open>ValidateSignal\<close> of the strategy, the
  signal returned is that signal degraded to HOLD. When \<^verbatim>\<open>Update\<close> throws, no exception
  leaves \<^verbatim>\<open>ExecuteStrategy\<close>: it returns a HOLD signal that carries the message of the
  exception, and the state of the strategy is \<^verbatim>\<open>ERROR\<close> afterwards.
\<close>

theorem ExecuteStrategy_degrades_to_hold:
  assumes reg: "map_of (mStrategies e) strategyName = Some strategy"
  shows
   "(map_of (mStrategyStates e) strategyName \<noteq> Some ACTIVE \<longrightarrow>
       ExecuteStrategy e strategyName klines ticker now =
         (Inr (SSignal_default\<lparr> mType_signal := HOLD, mStrategyName_signal := strategyName,
                 mMessage := ''Strategy is not active'', mTimestamp_signal := now \<rparr>), e)) \<and>
    (map_of (mStrategyStates e) strategyName = Some ACTIVE \<and>
     virtual_Update strategy (strategy_object strategy) klines ticker = (Inr signal, object') \<and>
     (\<not> ValidateStrategy
           (e\<lparr> mStrategies := AList.update strategyName (strategy\<lparr> strategy_object := object' \<rparr>)
                                 (mStrategies e) \<rparr>) strategyName
      \<or> virtual_ValidateSignal strategy object' signal = Inr False) \<longrightarrow>
       fst (ExecuteStrategy e strategyName klines ticker now) =
         Inr (signal\<lparr> mType_signal := HOLD, mMessage := ''Signal validation failed'',
                mStrategyName_signal := strategyName, mTimestamp_signal := now \<rparr>)) \<and>
    (map_of (mStrategyStates e) strategyName = Some ACTIVE \<and>
     virtual_Update strategy (strategy_object strategy) klines ticker = (Inl ex, object') \<longrightarrow>
       fst (ExecuteStrategy e strategyName klines ticker now) =
         Inr (SSignal_default\<lparr> mType_signal := HOLD, mStrategyName_signal := strategyName,
                mMessage := ''Execution error: '' @ what ex, mTimestamp_signal := now \<rparr>) \<and>
       map_of (mStrategyStates (snd (ExecuteStrategy e strategyName klines ticker now))) strategyName
         = Some ERROR)"
proof (intro conjI impI)
  assume "map_of (mStrategyStates e) strategyName \<noteq> Some ACTIVE"
  then show "ExecuteStrategy e strategyName klines ticker now =
         (Inr (SSignal_default\<lparr> mType_signal := HOLD, mStrategyName_signal := strategyName,
                 mMessage := ''Strategy is not active'', mTimestamp_signal := now \<rparr>), e)"
    using reg by (auto simp add: ExecuteStrategy_def Let_def split: option.splits)
next
  assume a: "map_of (mStrategyStates e) strategyName = Some ACTIVE \<and>
     virtual_Update strategy (strategy_object strategy) klines ticker = (Inr signal, object') \<and>
     (\<not> ValidateStrategy
           (e\<lparr> mStrategies := AList.update strategyName (strategy\<lparr> strategy_object := object' \<rparr>)
                                 (mStrategies e) \<rparr>) strategyName
      \<or> virtual_ValidateSignal strategy object' signal = Inr False)"
  then show "fst (ExecuteStrategy e strategyName klines ticker now) =
         Inr (signal\<lparr> mType_signal := HOLD, mMessage := ''Signal validation failed'',
                mStrategyName_signal := strategyName, mTimestamp_signal := now \<rparr>)"
    using reg by (auto simp add: ExecuteStrategy_def Let_def NotifyStrategySignal_def)
next
  assume a: "map_of (mStrategyStates e) strategyName = Some ACTIVE \<and>
     virtual_Update strategy (strategy_object strategy) klines ticker = (Inl ex, object')"
  then show "fst (ExecuteStrategy e strategyName klines ticker now) =
         Inr (SSignal_default\<lparr> mType_signal := HOLD, mStrategyName_signal := strategyName,
                mMessage := ''Execution error: '' @ what ex, mTimestamp_signal := now \<rparr>)"
    using reg by (simp add: ExecuteStrategy_def Let_def ExecuteStrategy_catch_def)
  from a show "map_of (mStrategyStates (snd (ExecuteStrategy e strategyName klines ticker now))) strategyName
         = Some ERROR"
    using reg by (simp add: ExecuteStrategy_def Let_def ExecuteStrategy_catch_def NotifyError_def
        AList.update_conv')
qed

lemma engine_with_registered:
  "map_of (mStrategies (engine_with strategy state)) ''RSI Strategy'' = Some strategy"
  "map_of (mStrategyStates (engine_with strategy state)) ''RSI Strategy'' = Some state"
  by (simp_all add: engine_with_def)

theorem ExecuteStrategy_degrades_to_hold_witness:
  "map_of (mStrategies (engine_with buying_strategy PAUSED)) ''RSI Strategy'' = Some buying_strategy \<and>
   map_of (mStrategyStates (engine_with buying_strategy PAUSED)) ''RSI Strategy'' \<noteq> Some ACTIVE \<and>
   ExecuteStrategy (engine_with buying_strategy PAUSED) ''RSI Strategy'' [candle 100] btc_ticker 5 =
     (Inr (SSignal_default\<lparr> mType_signal := HOLD, mStrategyName_signal := ''RSI Strategy'',
             mMessage := ''Strategy is not active'', mTimestamp_signal := 5 \<rparr>),
      engine_with buying_strategy PAUSED) \<and>
   map_of (mStrategyStates (engine_with buying_strategy ACTIVE)) ''RSI Strategy'' = Some ACTIVE \<and>
   virtual_Update buying_strategy (strategy_object buying_strategy) [candle 100] btc_ticker =
     (Inr (SSignal_default\<lparr> mType_signal := SIG_BUY, mMessage := ''Buy Oversold'' \<rparr>), 1) \<and>
   virtual_ValidateSignal buying_strategy 1
     (SSignal_default\<lparr> mType_signal := SIG_BUY, mMessage := ''Buy Oversold'' \<rparr>) = Inr False \<and>
   fst (ExecuteStrategy (engine_with buying_strategy ACTIVE) ''RSI Strategy'' [candle 100] btc_ticker 5) =
     Inr (SSignal_default\<lparr> mType_signal := HOLD, mMessage := ''Signal validation failed'',
            mStrategyName_signal := ''RSI Strategy'', mTimestamp_signal := 5 \<rparr>) \<and>
   map_of (mStrategyStates (engine_with throwing_strategy ACTIVE)) ''RSI Strategy'' = Some ACTIVE \<and>
   virtual_Update throwing_strategy (strategy_object throwing_strategy) [candle 100] btc_ticker =
     (Inl (runtime_error ''no data''), 1) \<and>
   fst (ExecuteStrategy (engine_with throwing_strategy ACTIVE) ''RSI Strategy'' [candle 100] btc_ticker 5) =
     Inr (SSignal_default\<lparr> mType_signal := HOLD, mStrategyName_signal := ''RSI Strategy'',
            mMessage := ''Execution error: no data'', mTimestamp_signal := 5 \<rparr>) \<and>
   map_of (mStrategyStates
     (snd (ExecuteStrategy (engine_with throwing_strategy ACTIVE) ''RSI Strategy'' [candle 100]
             btc_ticker 5))) ''RSI Strategy'' = Some ERROR"
proof -
  have u1: "virtual_Update buying_strategy (strategy_object buying_strategy) [candle 100] btc_ticker =
     (Inr (SSignal_default\<lparr> mType_signal := SIG_BUY, mMessage := ''Buy Oversold'' \<rparr>), 1)"
    by (simp add: buying_strategy_def)
  have v1: "virtual_ValidateSignal buying_strategy 1
     (SSignal_default\<lparr> mType_signal := SIG_BUY, mMessage := ''Buy Oversold'' \<rparr>) = Inr False"
    by (simp add: buying_strategy_def)
  have u2: "virtual_Update throwing_strategy (strategy_object throwing_strategy) [candle 100] btc_ticker =
     (Inl (runtime_error ''no data''), 1)"
    by (simp add: throwing_strategy_def)
  note t1 = ExecuteStrategy_degrades_to_hold
    [where e = "engine_with buying_strategy PAUSED" and strategyName = "''RSI Strategy''"
       and strategy = buying_strategy and klines = "[candle 100]" and ticker = btc_ticker
       and now = 5, OF engine_with_registered(1)]
  note t2 = ExecuteStrategy_degrades_to_hold
    [where e = "engine_with buying_strategy ACTIVE" and strategyName = "''RSI Strategy''"
       and strategy = buying_strategy and klines = "[candle 100]" and ticker = btc_ticker
       and now = 5
       and signal = "SSignal_default\<lparr> mType_signal := SIG_BUY, mMessage := ''Buy Oversold'' \<rparr>"
       and object' = 1, OF engine_with_registered(1)]
  note t3 = ExecuteStrategy_degrades_to_hold
    [where e = "engine_with throwing_strategy ACTIVE" and strategyName = "''RSI Strategy''"
       and strategy = throwing_strategy and klines = "[candle 100]" and ticker = btc_ticker
       and now = 5 and ex = "runtime_error ''no data''" and object' = 1,
     OF engine_with_registered(1)]
  from t1 have c1: "ExecuteStrategy (engine_with buying_strategy PAUSED) ''RSI Strategy'' [candle 100] btc_ticker 5 =
     (Inr (SSignal_default\<lparr> mType_signal := HOLD, mStrategyName_signal := ''RSI Strategy'',
             mMessage := ''Strategy is not active'', mTimestamp_signal := 5 \<rparr>),
      engine_with buying_strategy PAUSED)"
    by (simp add: engine_with_registered)
  from t2 u1 v1 have c2: "fst (ExecuteStrategy (engine_with buying_strategy ACTIVE) ''RSI Strategy'' [candle 100] btc_ticker 5) =
     Inr (SSignal_default\<lparr> mType_signal := HOLD, mMessage := ''Signal validation failed'',
            mStrategyName_signal := ''RSI Strategy'', mTimestamp_signal := 5 \<rparr>)"
    by (simp add: engine_with_registered)
  from t3 u2 have c3: "fst (ExecuteStrategy (engine_with throwing_strategy ACTIVE) ''RSI Strategy'' [candle 100] btc_ticker 5) =
     Inr (SSignal_default\<lparr> mType_signal := HOLD, mStrategyName_signal := ''RSI Strategy'',
            mMessage := ''Execution error: no data'', mTimestamp_signal := 5 \<rparr>) \<and>
   map_of (mStrategyStates
     (snd (ExecuteStrategy (engine_with throwing_strategy ACTIVE) ''RSI Strategy'' [candle 100]
             btc_ticker 5))) ''RSI Strategy'' = Some ERROR"
    by (simp add: engine_with_registered)
  show ?thesis
    using c1 c2 c3 u1 v1 u2 by (simp add: engine_with_registered)
qed

end
